theory Spec2Isabelle
  imports Complex_Main "HOL-Library.Word"
begin

unbundle bit_operations_syntax

section \<open>Numbers, dates and configuration\<close>

text \<open>
  The simulator computes on JavaScript numbers. They are embedded as \<^typ>\<open>real\<close>:
  every definition below is the source expression read in exact real arithmetic, so
  IEEE rounding and overflow are outside the embedding. A quotient whose divisor is 0
  is not a finite number in the source; the theorems below assume that the divisors
  they depend on (the leverage, the price of an order, the tick size, the maximal
  position) are positive or, where the sign does not matter, not 0, and the tick of the
  simulation engine tests the divisors that it computes itself. A \<open>Date\<close> is
  embedded as its number of milliseconds since the epoch; the strings that the source
  derives from it (\<open>toISOString\<close>, \<open>toLocaleTimeString\<close>) are renderings of
  that number and are represented by it.
\<close>

type_synonym date = int

text \<open>
  The normal draw of the generator is \<open>-Infinity\<close> when its first uniform draw is 0,
  and the price simulation computes with it before it clamps the price. Those
  expressions are embedded on the reals extended by the two infinities and NaN, with
  the IEEE product and sum and with \<open>Math.max\<close>.
\<close>

datatype number = Num real | PosInfinity | NegInfinity | NaN

fun number_times :: "number \<Rightarrow> number \<Rightarrow> number" where
  "number_times (Num a) (Num b) = Num (a * b)"
| "number_times (Num a) PosInfinity =
     (if 0 < a then PosInfinity else if a < 0 then NegInfinity else NaN)"
| "number_times (Num a) NegInfinity =
     (if 0 < a then NegInfinity else if a < 0 then PosInfinity else NaN)"
| "number_times PosInfinity (Num b) =
     (if 0 < b then PosInfinity else if b < 0 then NegInfinity else NaN)"
| "number_times NegInfinity (Num b) =
     (if 0 < b then NegInfinity else if b < 0 then PosInfinity else NaN)"
| "number_times PosInfinity PosInfinity = PosInfinity"
| "number_times PosInfinity NegInfinity = NegInfinity"
| "number_times NegInfinity PosInfinity = NegInfinity"
| "number_times NegInfinity NegInfinity = PosInfinity"
| "number_times NaN y = NaN"
| "number_times x NaN = NaN"

fun number_plus :: "number \<Rightarrow> number \<Rightarrow> number" where
  "number_plus (Num a) (Num b) = Num (a + b)"
| "number_plus (Num a) PosInfinity = PosInfinity"
| "number_plus (Num a) NegInfinity = NegInfinity"
| "number_plus PosInfinity (Num b) = PosInfinity"
| "number_plus NegInfinity (Num b) = NegInfinity"
| "number_plus PosInfinity PosInfinity = PosInfinity"
| "number_plus NegInfinity NegInfinity = NegInfinity"
| "number_plus PosInfinity NegInfinity = NaN"
| "number_plus NegInfinity PosInfinity = NaN"
| "number_plus NaN y = NaN"
| "number_plus x NaN = NaN"

text \<open>\<open>Math.max\<close> of two numbers: NaN if one of them is.\<close>

fun Math_max :: "number \<Rightarrow> number \<Rightarrow> number" where
  "Math_max (Num a) (Num b) = Num (max a b)"
| "Math_max NaN y = NaN"
| "Math_max x NaN = NaN"
| "Math_max PosInfinity y = PosInfinity"
| "Math_max x PosInfinity = PosInfinity"
| "Math_max NegInfinity y = y"
| "Math_max x NegInfinity = x"

text \<open>
  The outcome of a call that can throw or leave the finite numbers: the value that it
  returns; or the state in which it throws (a property read on \<open>null\<close>, a call of
  \<open>null\<close>), every assignment made before the throw being kept; or the fact that
  it has computed a number that is not finite, after which the embedding on
  \<^typ>\<open>real\<close> says nothing of the state.
\<close>

datatype ('a, 's) outcome = Returns 'a | Throws 's | NotFinite

datatype side = LONG | SHORT

text \<open>\<open>TRADING_CONFIG\<close>\<close>

definition TRADING_CONFIG_leverage :: real where
  "TRADING_CONFIG_leverage = 10"

definition TRADING_CONFIG_orderSizeUSD :: real where
  "TRADING_CONFIG_orderSizeUSD = 50"

definition TRADING_CONFIG_collapseThreshold :: real where
  "TRADING_CONFIG_collapseThreshold = 100"

definition TRADING_CONFIG_defaultBalance :: real where
  "TRADING_CONFIG_defaultBalance = 1000"

definition TRADING_CONFIG_candleDurationMs :: int where
  "TRADING_CONFIG_candleDurationMs = 5000"

definition TRADING_CONFIG_atrLength :: nat where
  "TRADING_CONFIG_atrLength = 20"

section \<open>Seedable random number generator\<close>

record seeded_rng =
  seed :: int
  state :: int

definition SeededRNG_new :: "int \<Rightarrow> seeded_rng" where
  "SeededRNG_new sd = \<lparr>seed = sd, state = sd\<rparr>"

definition SeededRNG_reset :: "seeded_rng \<Rightarrow> seeded_rng" where
  "SeededRNG_reset r = r\<lparr>state := seed r\<rparr>"

definition SeededRNG_setSeed :: "int \<Rightarrow> seeded_rng \<Rightarrow> seeded_rng" where
  "SeededRNG_setSeed sd r = r\<lparr>seed := sd, state := sd\<rparr>"

text \<open>
  \<open>random()\<close>, Mulberry32. The state is a JavaScript number that grows by
  \<open>0x6D2B79F5 = 1831565813\<close> at each call without being wrapped; it is embedded as
  an \<^typ>\<open>int\<close>. The bitwise operators and \<open>Math.imul\<close> read their operands
  modulo \<open>2^32\<close>, so the mixing is embedded on \<^typ>\<open>32 word\<close>: \<open>>>>\<close> is
  \<^const>\<open>drop_bit\<close>, \<open>Math.imul\<close> is the product of words, the sum inside the
  second \<open>^=\<close> is read modulo \<open>2^32\<close> by the exclusive or, and the final
  \<open>>>> 0\<close> reads the word as unsigned.
\<close>

definition SeededRNG_random :: "seeded_rng \<Rightarrow> real \<times> seeded_rng" where
  "SeededRNG_random r =
     (let st = state r + 1831565813;
          t0 = (word_of_int st :: 32 word);
          t1 = (t0 XOR drop_bit 15 t0) * (t0 OR 1);
          t2 = t1 XOR (t1 + (t1 XOR drop_bit 7 t1) * (t1 OR 61))
      in (real (unat (t2 XOR drop_bit 14 t2)) / 4294967296, r\<lparr>state := st\<rparr>))"

text \<open>
  \<open>randomNormal(mean, stdDev)\<close>, Box-Muller on two draws. A draw is less than 1, so
  its logarithm is not positive. When the first draw is 0, \<open>Math.log(0)\<close> is
  \<open>-Infinity\<close>, \<open>-2\<close> times it is \<open>Infinity\<close> and so is its square root;
  the product with the cosine, the product with \<open>stdDev\<close> and the sum with
  \<open>mean\<close> are the IEEE ones.
\<close>

definition SeededRNG_randomNormal :: "real \<Rightarrow> real \<Rightarrow> seeded_rng \<Rightarrow> number \<times> seeded_rng" where
  "SeededRNG_randomNormal mean stdDev r =
     (let (u1, r1) = SeededRNG_random r;
          (u2, r2) = SeededRNG_random r1;
          root = (if u1 = 0 then PosInfinity else Num (sqrt (- 2 * ln u1)));
          z0 = number_times root (Num (cos (2 * pi * u2)))
      in (number_plus (Num mean) (number_times z0 (Num stdDev)), r2))"

section \<open>Average true range\<close>

record candle =
  open_c :: real
  high :: real
  low :: real
  close :: real
  timestamp_c :: date

text \<open>
  The loop of \<open>calculateATR\<close>, from index \<open>i\<close> up to \<open>lookback\<close>, appending
  to \<open>trueRanges\<close>. The caller has \<open>lookback \<le> candles.length\<close> and starts at
  \<open>i = 1\<close>, so both indices are inside the array.
\<close>

function atr_loop :: "candle list \<Rightarrow> nat \<Rightarrow> nat \<Rightarrow> real list \<Rightarrow> real list" where
  "atr_loop candles lookback i trueRanges =
     (if i < lookback
      then atr_loop candles lookback (i + 1)
             (trueRanges @
               [max (high (candles ! (length candles - lookback + i))
                      - low (candles ! (length candles - lookback + i)))
                  (max \<bar>high (candles ! (length candles - lookback + i))
                         - close (candles ! (length candles - lookback + i - 1))\<bar>
                       \<bar>low (candles ! (length candles - lookback + i))
                         - close (candles ! (length candles - lookback + i - 1))\<bar>)])
      else trueRanges)"
  by pat_completeness auto
termination
  by (relation "measure (\<lambda>(candles, lookback, i, trueRanges). lookback - i)") auto

declare atr_loop.simps [simp del]

text \<open>\<open>calculateATR(candles, length)\<close>; \<open>reduce\<close> sums from the left, starting at 0.\<close>

definition calculateATR :: "candle list \<Rightarrow> nat \<Rightarrow> real" where
  "calculateATR candles len =
     (if length candles < 2 then 0
      else
        let lookback = min (length candles) (len + 1);
            trueRanges = atr_loop candles lookback 1 []
        in if length trueRanges = 0 then 0
           else foldl (\<lambda>sum tr. sum + tr) 0 trueRanges / real (length trueRanges))"

section \<open>Quote calculation\<close>

record asset_config =
  kVol :: real
  kPos :: real
  tickSize :: real
  maxPosition :: real
  initPrice :: real
  coinId :: string
  decimals :: nat

datatype asset = BTC | ETH | SOL | APT

text \<open>\<open>ASSET_CONFIGS\<close>\<close>

fun ASSET_CONFIGS :: "asset \<Rightarrow> asset_config" where
  "ASSET_CONFIGS BTC = \<lparr>kVol = 0.2, kPos = 0.3, tickSize = 1, maxPosition = 0.5,
     initPrice = 95000, coinId = ''bitcoin'', decimals = 0\<rparr>"
| "ASSET_CONFIGS ETH = \<lparr>kVol = 0.25, kPos = 0.35, tickSize = 0.01, maxPosition = 5,
     initPrice = 3300, coinId = ''ethereum'', decimals = 2\<rparr>"
| "ASSET_CONFIGS SOL = \<lparr>kVol = 0.3, kPos = 0.5, tickSize = 0.001, maxPosition = 50,
     initPrice = 190, coinId = ''solana'', decimals = 3\<rparr>"
| "ASSET_CONFIGS APT = \<lparr>kVol = 0.5, kPos = 0.7, tickSize = 0.001, maxPosition = 100,
     initPrice = 9.5, coinId = ''aptos'', decimals = 3\<rparr>"

text \<open>\<open>Math.round\<close>: the nearest integer, a tie going up.\<close>

definition Math_round :: "real \<Rightarrow> real" where
  "Math_round x = of_int \<lfloor>x + 1 / 2\<rfloor>"

text \<open>\<open>roundPrice(price, config)\<close>\<close>

definition roundPrice :: "real \<Rightarrow> asset_config \<Rightarrow> real" where
  "roundPrice price config =
     (if decimals config = 0 then Math_round price
      else Math_round (price / tickSize config) * tickSize config)"

record quotes =
  bid :: real
  ask :: real
  baseSpread :: real
  actualSpread :: real
  skew :: real
  imbalance :: real

text \<open>\<open>calculateQuotes(mid, atr, longSize, shortSize, config)\<close>\<close>

definition calculateQuotes :: "real \<Rightarrow> real \<Rightarrow> real \<Rightarrow> real \<Rightarrow> asset_config \<Rightarrow> quotes" where
  "calculateQuotes mid atr longSize shortSize config =
     (let minSpread = tickSize config * 2;
          baseSpread = max minSpread (kVol config * atr);
          netPosition = longSize - shortSize;
          imbalance = netPosition / maxPosition config;
          skew = kPos config * imbalance * baseSpread;
          bidPrice = roundPrice (mid - baseSpread / 2 - skew) config;
          askPrice = roundPrice (mid + baseSpread / 2 - skew) config;
          actualSpread = askPrice - bidPrice
      in \<lparr>bid = bidPrice, ask = askPrice, baseSpread = baseSpread,
          actualSpread = actualSpread, skew = skew, imbalance = imbalance\<rparr>)"

section \<open>Price simulation\<close>

datatype regime = Low | Medium | High

text \<open>\<open>VOLATILITY_REGIMES[regime].factor\<close>\<close>

fun VOLATILITY_REGIMES_factor :: "regime \<Rightarrow> real" where
  "VOLATILITY_REGIMES_factor Low = 0.5"
| "VOLATILITY_REGIMES_factor Medium = 1.0"
| "VOLATILITY_REGIMES_factor High = 2.0"

text \<open>The table \<open>baseVol\<close> inside \<open>generateTick\<close>.\<close>

fun baseVol :: "asset \<Rightarrow> real" where
  "baseVol BTC = 0.6"
| "baseVol ETH = 0.8"
| "baseVol SOL = 1.0"
| "baseVol APT = 1.2"

text \<open>
  \<open>PriceSimulator\<close>. Its \<open>rng\<close> field is a reference to the generator object of the
  simulation engine, which also draws from it; the generator is therefore passed to
  \<open>generateTick\<close> and returned by it instead of being copied into this record.
\<close>

record price_simulator =
  asset_ps :: asset
  config_ps :: asset_config
  currentPrice :: real
  volatilityRegime :: regime
  drift :: real
  candles :: "candle list"
  currentCandle :: "candle option"
  candleStartTime :: "date option"

definition PriceSimulator_new :: "asset \<Rightarrow> price_simulator" where
  "PriceSimulator_new a =
     \<lparr>asset_ps = a, config_ps = ASSET_CONFIGS a, currentPrice = initPrice (ASSET_CONFIGS a),
      volatilityRegime = Medium, drift = 0, candles = [], currentCandle = None,
      candleStartTime = None\<rparr>"

text \<open>
  \<open>updateCandle(price)\<close>, with the reading \<open>now\<close> of \<open>Date.now()\<close> as an argument.
  \<open>!this.candleStartTime\<close> holds for \<open>null\<close> and for 0. In the branch that updates
  the open candle the source reads \<open>this.currentCandle.high\<close>, which throws when
  there is no open candle: \<open>None\<close>.
\<close>

definition updateCandle :: "real \<Rightarrow> date \<Rightarrow> price_simulator \<Rightarrow> price_simulator option" where
  "updateCandle price now ps =
     (if (case candleStartTime ps of None \<Rightarrow> True
          | Some st \<Rightarrow> st = 0 \<or> now - st \<ge> TRADING_CONFIG_candleDurationMs)
      then
        let cs = (case currentCandle ps of None \<Rightarrow> candles ps
                  | Some c \<Rightarrow>
                      let pushed = candles ps @ [c]
                      in if length pushed > 50 then tl pushed else pushed)
        in Some (ps\<lparr>candles := cs,
                    currentCandle := Some \<lparr>open_c = price, high = price, low = price,
                                            close = price, timestamp_c = now\<rparr>,
                    candleStartTime := Some now\<rparr>)
      else
        (case currentCandle ps of None \<Rightarrow> None
         | Some c \<Rightarrow>
             Some (ps\<lparr>currentCandle :=
                        Some (c\<lparr>high := max (high c) price, low := min (low c) price,
                                close := price\<rparr>)\<rparr>)))"

text \<open>
  \<open>generateTick(dt)\<close>, with the generator and the clock reading as arguments. It
  returns the new price, the generator and the simulator. The random component is the
  product of a finite number and the normal draw; it is added to the drift component
  and the sum to the price, and \<open>Math.max\<close> clamps the result at the tick size. A
  normal draw \<open>-Infinity\<close> with a positive factor thus gives the tick size. When the
  clamped price is not a finite number, or \<open>dt\<close> is negative (\<open>Math.sqrt\<close> is
  NaN), the outcome is \<open>NotFinite\<close>. When \<open>updateCandle\<close> throws, the generator has
  made its two draws and the price has been assigned.
\<close>

definition generateTick ::
  "real \<Rightarrow> date \<Rightarrow> seeded_rng \<Rightarrow> price_simulator
     \<Rightarrow> (real \<times> seeded_rng \<times> price_simulator, seeded_rng \<times> price_simulator) outcome" where
  "generateTick dt now r ps =
     (let regimeFactor = VOLATILITY_REGIMES_factor (volatilityRegime ps);
          volatility = baseVol (asset_ps ps) * regimeFactor;
          driftComponent = drift ps * currentPrice ps * dt;
          (z, r') = SeededRNG_randomNormal 0 1 r
      in if dt < 0 then NotFinite
         else
           let randomComponent = number_times (Num (volatility * currentPrice ps * sqrt dt)) z;
               p1 = number_plus (Num (currentPrice ps))
                      (number_plus (Num driftComponent) randomComponent)
           in (case Math_max p1 (Num (tickSize (config_ps ps))) of
                 Num p2 \<Rightarrow>
                   (case updateCandle p2 now (ps\<lparr>currentPrice := p2\<rparr>) of
                      None \<Rightarrow> Throws (r', ps\<lparr>currentPrice := p2\<rparr>)
                    | Some ps' \<Rightarrow> Returns (p2, r', ps'))
               | PosInfinity \<Rightarrow> NotFinite
               | NegInfinity \<Rightarrow> NotFinite
               | NaN \<Rightarrow> NotFinite))"

section \<open>Trading engine\<close>

record position =
  size_p :: real
  avgPrice :: real

record trade =
  trade_id :: nat
  trade_timestamp :: date
  trade_side :: side
  trade_price :: real
  trade_size :: real
  trade_margin :: real

record collapse =
  collapse_id :: nat
  collapse_timestamp :: date
  collapse_size :: real
  collapse_pnl :: real

record trading_engine =
  balance :: real
  initialBalance :: real
  leverage :: real
  longPosition :: position
  shortPosition :: position
  realizedPnL :: real
  trades :: "trade list"
  collapses :: "collapse list"

text \<open>\<open>TradingEngine.reset(initialBalance)\<close>\<close>

definition TradingEngine_reset :: "real \<Rightarrow> trading_engine" where
  "TradingEngine_reset b =
     \<lparr>balance = b, initialBalance = b, leverage = TRADING_CONFIG_leverage,
      longPosition = \<lparr>size_p = 0, avgPrice = 0\<rparr>,
      shortPosition = \<lparr>size_p = 0, avgPrice = 0\<rparr>,
      realizedPnL = 0, trades = [], collapses = []\<rparr>"

text \<open>\<open>calculateMargin(size, price) = (size * price) / this.leverage\<close>\<close>

definition calculateMargin :: "trading_engine \<Rightarrow> real \<Rightarrow> real \<Rightarrow> real" where
  "calculateMargin s sz price = (sz * price) / leverage s"

text \<open>\<open>calculateOrderSize(price)\<close>\<close>

definition calculateOrderSize :: "trading_engine \<Rightarrow> real \<Rightarrow> real" where
  "calculateOrderSize s price =
     (let buyingPower = balance s * leverage s;
          maxNotional = min TRADING_CONFIG_orderSizeUSD buyingPower
      in maxNotional / price)"

text \<open>
  The position update of \<open>executeEntry\<close>, the same expression on either side:
  the new size is the sum, the new average price the size-weighted mean when the old
  size is positive and the fill price otherwise.
\<close>

definition enter :: "position \<Rightarrow> real \<Rightarrow> real \<Rightarrow> position" where
  "enter pos price sz =
     (let newSize = size_p pos + sz;
          newAvgPrice = (if size_p pos > 0
                         then (avgPrice pos * size_p pos + price * sz) / newSize
                         else price)
      in \<lparr>size_p = newSize, avgPrice = newAvgPrice\<rparr>)"

text \<open>
  \<open>executeEntry(side, price, size, timestamp)\<close>: \<open>None\<close> is the source's \<open>null\<close>.
  The source tests \<open>side === 'LONG'\<close> and takes the short branch otherwise; its callers
  pass \<open>'LONG'\<close> or \<open>'SHORT'\<close>. The trade is put at the front of the list
  (\<open>unshift\<close>) and the last element is dropped (\<open>pop\<close>) when the list has grown
  beyond 100.
\<close>

definition executeEntry ::
  "side \<Rightarrow> real \<Rightarrow> real \<Rightarrow> date \<Rightarrow> trading_engine \<Rightarrow> trade option \<times> trading_engine" where
  "executeEntry sd price sz timestamp s =
     (let margin = calculateMargin s sz price in
      if margin > balance s then (None, s)
      else
        let s1 = s\<lparr>balance := balance s - margin\<rparr>;
            s2 = (if sd = LONG
                  then s1\<lparr>longPosition := enter (longPosition s1) price sz\<rparr>
                  else s1\<lparr>shortPosition := enter (shortPosition s1) price sz\<rparr>);
            t = \<lparr>trade_id = length (trades s2) + 1, trade_timestamp = timestamp,
                 trade_side = sd, trade_price = price, trade_size = sz,
                 trade_margin = margin\<rparr>;
            ts = t # trades s2;
            ts' = (if length ts > 100 then butlast ts else ts)
        in (Some t, s2\<lparr>trades := ts'\<rparr>))"

text \<open>\<open>shouldCollapse()\<close>\<close>

definition shouldCollapse :: "trading_engine \<Rightarrow> bool" where
  "shouldCollapse s \<longleftrightarrow>
     balance s < TRADING_CONFIG_collapseThreshold
     \<and> size_p (longPosition s) > 0 \<and> size_p (shortPosition s) > 0"

text \<open>\<open>executeCollapse(timestamp)\<close>: \<open>None\<close> is the source's \<open>null\<close>.\<close>

definition executeCollapse :: "date \<Rightarrow> trading_engine \<Rightarrow> collapse option \<times> trading_engine" where
  "executeCollapse timestamp s =
     (let collapseSize = min (size_p (longPosition s)) (size_p (shortPosition s)) in
      if collapseSize \<le> 0 then (None, s)
      else
        let pnl = (avgPrice (shortPosition s) - avgPrice (longPosition s)) * collapseSize;
            longMarginReturn = calculateMargin s collapseSize (avgPrice (longPosition s));
            shortMarginReturn = calculateMargin s collapseSize (avgPrice (shortPosition s));
            newLongSize = size_p (longPosition s) - collapseSize;
            newShortSize = size_p (shortPosition s) - collapseSize;
            c = \<lparr>collapse_id = length (collapses s) + 1, collapse_timestamp = timestamp,
                 collapse_size = collapseSize, collapse_pnl = pnl\<rparr>
        in (Some c,
            s\<lparr>longPosition :=
                 \<lparr>size_p = newLongSize,
                  avgPrice = (if newLongSize > 0 then avgPrice (longPosition s) else 0)\<rparr>,
              shortPosition :=
                 \<lparr>size_p = newShortSize,
                  avgPrice = (if newShortSize > 0 then avgPrice (shortPosition s) else 0)\<rparr>,
              balance := balance s + (longMarginReturn + shortMarginReturn + pnl),
              realizedPnL := realizedPnL s + pnl,
              collapses := c # collapses s\<rparr>))"

text \<open>\<open>calculateUnrealizedPnL(currentPrice)\<close>\<close>

definition calculateUnrealizedPnL :: "trading_engine \<Rightarrow> real \<Rightarrow> real" where
  "calculateUnrealizedPnL s price =
     (let longPnL = (if size_p (longPosition s) > 0
                     then size_p (longPosition s) * (price - avgPrice (longPosition s))
                     else 0);
          shortPnL = (if size_p (shortPosition s) > 0
                      then size_p (shortPosition s) * (avgPrice (shortPosition s) - price)
                      else 0)
      in longPnL + shortPnL)"

text \<open>\<open>calculateEquity(currentPrice)\<close>\<close>

definition calculateEquity :: "trading_engine \<Rightarrow> real \<Rightarrow> real" where
  "calculateEquity s price =
     (let longMargin = calculateMargin s (size_p (longPosition s)) (avgPrice (longPosition s));
          shortMargin = calculateMargin s (size_p (shortPosition s)) (avgPrice (shortPosition s));
          unrealizedPnL = calculateUnrealizedPnL s price
      in balance s + longMargin + shortMargin + unrealizedPnL)"

section \<open>Simulation engine\<close>

record data_point =
  dp_timestamp :: date
  dp_tick :: nat
  dp_mid :: real
  dp_bid :: real
  dp_ask :: real
  dp_spread :: real
  dp_atr :: real
  dp_balance :: real
  dp_equity :: real
  dp_unrealizedPnL :: real
  dp_realizedPnL :: real
  dp_longSize :: real
  dp_shortSize :: real

text \<open>
  The callbacks \<open>onTick\<close>, \<open>onTrade\<close> and \<open>onCollapse\<close> of the engine:
  \<open>null\<close>, their value in a new engine, or a function set by the user interface.
  Such a function is an observer: it is handed the event and does not touch the engine.
\<close>

datatype callback = Null | Observer

text \<open>
  \<open>SimulationEngine\<close>, the simulation mode: the live price fetcher, the mode switch
  and the timer handle are not part of the record.
\<close>

record simulation_engine =
  rng :: seeded_rng
  priceSimulator :: "price_simulator option"
  tradingEngine :: trading_engine
  asset_e :: asset
  config_e :: asset_config
  isRunning :: bool
  tickCount :: nat
  atrLength :: nat
  dataHistory :: "data_point list"
  currentMid :: real
  currentQuotes :: quotes
  currentATR :: real
  onTick :: callback
  onTrade :: callback
  onCollapse :: callback

definition SimulationEngine_new :: simulation_engine where
  "SimulationEngine_new =
     \<lparr>rng = SeededRNG_new 12345, priceSimulator = None,
      tradingEngine = TradingEngine_reset TRADING_CONFIG_defaultBalance,
      asset_e = BTC, config_e = ASSET_CONFIGS BTC, isRunning = False, tickCount = 0,
      atrLength = TRADING_CONFIG_atrLength, dataHistory = [], currentMid = 0,
      currentQuotes = \<lparr>bid = 0, ask = 0, baseSpread = 0, actualSpread = 0, skew = 0,
                        imbalance = 0\<rparr>,
      currentATR = 0, onTick = Null, onTrade = Null, onCollapse = Null\<rparr>"

definition setAsset :: "asset \<Rightarrow> simulation_engine \<Rightarrow> simulation_engine" where
  "setAsset a e =
     e\<lparr>asset_e := a, config_e := ASSET_CONFIGS a, priceSimulator := Some (PriceSimulator_new a)\<rparr>"

definition setSeed :: "int \<Rightarrow> simulation_engine \<Rightarrow> simulation_engine" where
  "setSeed sd e = e\<lparr>rng := SeededRNG_setSeed sd (rng e)\<rparr>"

text \<open>
  \<open>simulateMarketActivity(timestamp)\<close>. The result pairs the trade returned by
  \<open>executeEntry\<close> (\<open>None\<close> also when no fill is drawn) with the engine. The
  call of \<open>onTrade\<close> is guarded by a test of the callback, so the engine is the same
  whether it is set or not.
\<close>

definition simulateMarketActivity ::
  "date \<Rightarrow> simulation_engine \<Rightarrow> trade option \<times> simulation_engine" where
  "simulateMarketActivity timestamp e =
     (let fillProbability = 0.25;
          (u, r1) = SeededRNG_random (rng e)
      in if u > fillProbability then (None, e\<lparr>rng := r1\<rparr>)
         else
           let (v, r2) = SeededRNG_random r1;
               isBuyOrder = v < 0.5;
               (w, r3) = SeededRNG_random r2;
               fillPercentage = 0.5 + w * 0.5
           in if isBuyOrder
              then
                let orderSize = calculateOrderSize (tradingEngine e) (ask (currentQuotes e));
                    fillSize = orderSize * fillPercentage;
                    (t, te) = executeEntry SHORT (ask (currentQuotes e)) fillSize timestamp
                                (tradingEngine e)
                in (t, e\<lparr>rng := r3, tradingEngine := te\<rparr>)
              else
                let orderSize = calculateOrderSize (tradingEngine e) (bid (currentQuotes e));
                    fillSize = orderSize * fillPercentage;
                    (t, te) = executeEntry LONG (bid (currentQuotes e)) fillSize timestamp
                                (tradingEngine e)
                in (t, e\<lparr>rng := r3, tradingEngine := te\<rparr>))"

text \<open>
  \<open>tick()\<close> in simulation mode, by the numbered steps of the source.
  \<open>timestamp\<close> is the reading of \<open>new Date()\<close> at the start of the tick and
  \<open>now\<close> the reading of \<open>Date.now()\<close> inside \<open>updateCandle\<close>.

  Step 1, with the increment of the tick counter that precedes it: the next price.
  Without a price simulator the call of \<open>generateTick\<close> throws, the counter having
  been incremented. When \<open>generateTick\<close> throws, \<open>currentMid\<close> is not assigned.
\<close>

definition tick_price ::
  "date \<Rightarrow> simulation_engine \<Rightarrow> (simulation_engine, simulation_engine) outcome" where
  "tick_price now e =
     (let e0 = e\<lparr>tickCount := tickCount e + 1\<rparr>
      in case priceSimulator e of None \<Rightarrow> Throws e0
         | Some ps \<Rightarrow>
             (case generateTick (1.5 / 86400) now (rng e) ps of
                Returns (mid, r1, ps1) \<Rightarrow>
                  Returns (e0\<lparr>currentMid := mid, rng := r1, priceSimulator := Some ps1\<rparr>)
              | Throws (r1, ps1) \<Rightarrow> Throws (e0\<lparr>rng := r1, priceSimulator := Some ps1\<rparr>)
              | NotFinite \<Rightarrow> NotFinite))"

text \<open>Step 2: the ATR of the completed candles.\<close>

definition tick_atr :: "simulation_engine \<Rightarrow> simulation_engine" where
  "tick_atr e =
     e\<lparr>currentATR :=
         calculateATR (case priceSimulator e of None \<Rightarrow> [] | Some ps \<Rightarrow> candles ps)
           (atrLength e)\<rparr>"

text \<open>
  Step 3: the collapse, when due. The source calls \<open>this.onCollapse(collapse)\<close>
  without testing the callback: when it is \<open>null\<close> the call throws, the collapse
  having been executed.
\<close>

definition tick_collapse ::
  "date \<Rightarrow> simulation_engine \<Rightarrow> (simulation_engine, simulation_engine) outcome" where
  "tick_collapse timestamp e =
     (if shouldCollapse (tradingEngine e)
      then
        let (collapse, te) = executeCollapse timestamp (tradingEngine e);
            e' = e\<lparr>tradingEngine := te\<rparr>
        in (case collapse of None \<Rightarrow> Returns e'
            | Some c \<Rightarrow> (case onCollapse e of Null \<Rightarrow> Throws e' | Observer \<Rightarrow> Returns e'))
      else Returns e)"

text \<open>Step 4: the quotes.\<close>

definition tick_quotes :: "simulation_engine \<Rightarrow> simulation_engine" where
  "tick_quotes e =
     e\<lparr>currentQuotes :=
         calculateQuotes (currentMid e) (currentATR e)
           (size_p (longPosition (tradingEngine e)))
           (size_p (shortPosition (tradingEngine e))) (config_e e)\<rparr>"

text \<open>
  Step 5 is \<open>simulateMarketActivity\<close>. When it draws a fill, two of its quotients
  have a divisor that the run has computed: \<open>calculateOrderSize\<close> divides by the
  quote that is hit, and \<open>executeEntry\<close>, when it accepts the entry on a side that is
  open, divides by the new size of that side. \<open>fill_divides_by_zero\<close> tells, from the
  three draws of the step, whether one of the two divisors is 0; the outcome of the step
  then is \<open>NotFinite\<close>.
\<close>

definition fill_divides_by_zero :: "simulation_engine \<Rightarrow> bool" where
  "fill_divides_by_zero e =
     (let fillProbability = 0.25;
          (u, r1) = SeededRNG_random (rng e);
          (v, r2) = SeededRNG_random r1;
          isBuyOrder = v < 0.5;
          (w, r3) = SeededRNG_random r2;
          fillPercentage = 0.5 + w * 0.5;
          price = (if isBuyOrder then ask (currentQuotes e) else bid (currentQuotes e));
          pos = (if isBuyOrder then shortPosition (tradingEngine e)
                 else longPosition (tradingEngine e));
          fillSize = calculateOrderSize (tradingEngine e) price * fillPercentage;
          margin = calculateMargin (tradingEngine e) fillSize price
      in \<not> u > fillProbability
         \<and> (price = 0
            \<or> (\<not> margin > balance (tradingEngine e) \<and> size_p pos > 0
               \<and> size_p pos + fillSize = 0)))"

definition tick_fill ::
  "date \<Rightarrow> simulation_engine \<Rightarrow> (simulation_engine, simulation_engine) outcome" where
  "tick_fill timestamp e =
     (if fill_divides_by_zero e then NotFinite
      else Returns (snd (simulateMarketActivity timestamp e)))"

text \<open>
  Steps 6 and 7: the data point, pushed at the end of the history, whose first element
  is dropped (\<open>shift\<close>) when the history has grown beyond 1000. Step 8 hands the data
  point to \<open>onTick\<close> when that callback is set, and leaves the engine as it is.
\<close>

definition tick_record :: "date \<Rightarrow> simulation_engine \<Rightarrow> simulation_engine" where
  "tick_record timestamp e =
     (let unrealizedPnL = calculateUnrealizedPnL (tradingEngine e) (currentMid e);
          equity = calculateEquity (tradingEngine e) (currentMid e);
          dataPoint =
            \<lparr>dp_timestamp = timestamp, dp_tick = tickCount e,
             dp_mid = currentMid e, dp_bid = bid (currentQuotes e),
             dp_ask = ask (currentQuotes e),
             dp_spread = actualSpread (currentQuotes e),
             dp_atr = currentATR e, dp_balance = balance (tradingEngine e),
             dp_equity = equity, dp_unrealizedPnL = unrealizedPnL,
             dp_realizedPnL = realizedPnL (tradingEngine e),
             dp_longSize = size_p (longPosition (tradingEngine e)),
             dp_shortSize = size_p (shortPosition (tradingEngine e))\<rparr>;
          pushed = dataHistory e @ [dataPoint]
      in e\<lparr>dataHistory := (if length pushed > 1000 then tl pushed else pushed)\<rparr>)"

text \<open>
  The tick: nothing on an engine that is not running; otherwise steps 1 to 8 in order.
  A step that throws ends the tick in the state of the throw. Steps 3 to 6 also divide
  by the leverage, the maximal position and the tick size, which no tick changes; the
  theorems about ticks assume that they are not 0.
\<close>

definition tick ::
  "date \<Rightarrow> date \<Rightarrow> simulation_engine \<Rightarrow> (simulation_engine, simulation_engine) outcome" where
  "tick timestamp now e =
     (if \<not> isRunning e then Returns e
      else
        (case tick_price now e of Throws e1 \<Rightarrow> Throws e1 | NotFinite \<Rightarrow> NotFinite
         | Returns e1 \<Rightarrow>
             (case tick_collapse timestamp (tick_atr e1) of
                Throws e3 \<Rightarrow> Throws e3 | NotFinite \<Rightarrow> NotFinite
              | Returns e3 \<Rightarrow>
                  (case tick_fill timestamp (tick_quotes e3) of
                     Throws e5 \<Rightarrow> Throws e5 | NotFinite \<Rightarrow> NotFinite
                   | Returns e5 \<Rightarrow> Returns (tick_record timestamp e5)))))"

text \<open>
  A run of the timer: one tick per pair of clock readings, in order. \<open>tick\<close> is an
  \<open>async\<close> function called by \<open>setInterval\<close>: a tick that throws rejects its
  promise, the timer goes on, and the next tick starts from the state of the throw. The
  run is \<open>None\<close> when one of its ticks computes a number that is not finite.
\<close>

fun run_ticks :: "(date \<times> date) list \<Rightarrow> simulation_engine \<Rightarrow> simulation_engine option" where
  "run_ticks [] e = Some e"
| "run_ticks ((timestamp, now) # clock) e =
     (case tick timestamp now e of
        Returns e' \<Rightarrow> run_ticks clock e'
      | Throws e' \<Rightarrow> run_ticks clock e'
      | NotFinite \<Rightarrow> None)"

section \<open>Example states\<close>

definition example_ledger :: trading_engine where
  "example_ledger =
     (TradingEngine_reset 1000)
       \<lparr>longPosition := \<lparr>size_p = 2, avgPrice = 100\<rparr>,
        shortPosition := \<lparr>size_p = 1, avgPrice = 105\<rparr>\<rparr>"

text \<open>A ledger reached from \<open>reset(30)\<close> by a long entry at 200 and a short entry at 100.\<close>

definition loss_ledger :: trading_engine where
  "loss_ledger =
     snd (executeEntry SHORT 100 1 0 (snd (executeEntry LONG 200 1 0 (TradingEngine_reset 30))))"

text \<open>A new engine after \<open>setAsset('BTC')\<close>, running.\<close>

definition example_engine :: simulation_engine where
  "example_engine = (setAsset BTC SimulationEngine_new)\<lparr>isRunning := True\<rparr>"

text \<open>An engine on which the first draw of \<open>simulateMarketActivity\<close> is a fill.\<close>

definition fill_engine :: simulation_engine where
  "fill_engine =
     example_engine
       \<lparr>rng := SeededRNG_new 7,
        currentQuotes := \<lparr>bid = 94990, ask = 95010, baseSpread = 20, actualSpread = 20,
                          skew = 0, imbalance = 0\<rparr>\<rparr>"

text \<open>The two candles of the ATR example.\<close>

definition example_candles :: "candle list" where
  "example_candles =
     [\<lparr>open_c = 9, high = 10, low = 8, close = 9, timestamp_c = 0\<rparr>,
      \<lparr>open_c = 9, high = 11, low = 9, close = 10, timestamp_c = 5000\<rparr>]"

text \<open>The same engine after \<open>setSeed(42)\<close>.\<close>

definition engine42 :: simulation_engine where
  "engine42 = setSeed 42 example_engine"

text \<open>
  The same engine after \<open>setSeed(2463401483)\<close>: the first draw of its generator
  is 0.
\<close>

definition zero_draw_engine :: simulation_engine where
  "zero_draw_engine = setSeed 2463401483 example_engine"

section \<open>Stated properties\<close>

text \<open>The position invariant of the data model.\<close>

definition position_invariant :: "trading_engine \<Rightarrow> bool" where
  "position_invariant s \<longleftrightarrow>
     size_p (longPosition s) \<ge> 0 \<and> size_p (shortPosition s) \<ge> 0
     \<and> (size_p (longPosition s) = 0 \<longrightarrow> avgPrice (longPosition s) = 0)
     \<and> (size_p (shortPosition s) = 0 \<longrightarrow> avgPrice (shortPosition s) = 0)"

text \<open>
  The average true range as the specification words it: the true range of an adjacent
  pair of candles, and its mean over the last \<open>min (len - 1) N\<close> pairs.
\<close>

definition trueRange :: "candle \<Rightarrow> candle \<Rightarrow> real" where
  "trueRange previous current =
     max (high current - low current)
       (max \<bar>high current - close previous\<bar> \<bar>low current - close previous\<bar>)"

definition ATR_spec :: "candle list \<Rightarrow> nat \<Rightarrow> real" where
  "ATR_spec cs N =
     (if length cs < 2 then 0
      else
        let pairs = zip (butlast cs) (tl cs);
            m = min (length cs - 1) N;
            lastPairs = drop (length pairs - m) pairs
        in sum_list (map (\<lambda>(previous, current). trueRange previous current) lastPairs) / real m)"

text \<open>
  Equality of engine states up to clock readings is equality after erasing them: the
  time stamps of candles, trades, collapses and data points are set to 0, and the start
  time of the open candle, when there is one, to 1.
\<close>

definition erase_candle :: "candle \<Rightarrow> candle" where
  "erase_candle c = c\<lparr>timestamp_c := 0\<rparr>"

definition erase_ps :: "price_simulator \<Rightarrow> price_simulator" where
  "erase_ps ps =
     ps\<lparr>candles := map erase_candle (candles ps),
        currentCandle := map_option erase_candle (currentCandle ps),
        candleStartTime := map_option (\<lambda>t. 1) (candleStartTime ps)\<rparr>"

definition erase_te :: "trading_engine \<Rightarrow> trading_engine" where
  "erase_te s =
     s\<lparr>trades := map (\<lambda>t. t\<lparr>trade_timestamp := 0\<rparr>) (trades s),
       collapses := map (\<lambda>c. c\<lparr>collapse_timestamp := 0\<rparr>) (collapses s)\<rparr>"

definition erase_dp :: "data_point \<Rightarrow> data_point" where
  "erase_dp d = d\<lparr>dp_timestamp := 0\<rparr>"

definition erase_engine :: "simulation_engine \<Rightarrow> simulation_engine" where
  "erase_engine e =
     e\<lparr>priceSimulator := map_option erase_ps (priceSimulator e),
       tradingEngine := erase_te (tradingEngine e),
       dataHistory := map erase_dp (dataHistory e)\<rparr>"

text \<open>
  The test of \<open>updateCandle\<close> for closing the open candle, and the sequence of its
  outcomes along a sequence of clock readings.
\<close>

definition rollover :: "date option \<Rightarrow> date \<Rightarrow> bool" where
  "rollover start now =
     (case start of None \<Rightarrow> True
      | Some st \<Rightarrow> st = 0 \<or> now - st \<ge> TRADING_CONFIG_candleDurationMs)"

fun rollovers :: "date option \<Rightarrow> date list \<Rightarrow> bool list" where
  "rollovers start [] = []"
| "rollovers start (now # nows) =
     rollover start now # rollovers (if rollover start now then Some now else start) nows"

definition candleStart :: "simulation_engine \<Rightarrow> date option" where
  "candleStart e = (case priceSimulator e of None \<Rightarrow> None | Some ps \<Rightarrow> candleStartTime ps)"

text \<open>A clock reading that gives \<open>rollover\<close> the outcome \<open>b\<close> on an erased state.\<close>

definition canonical_now :: "bool \<Rightarrow> date" where
  "canonical_now b = (if b then 5001 else 1)"

section \<open>Properties of the trading engine\<close>

text \<open>
  C1. \<open>executeCollapse\<close> nets \<open>collapseSize = min L S\<close>. When that is not positive the
  result is \<open>null\<close> and the ledger is unchanged. Otherwise the realized pnl
  \<open>(sa - la) * collapseSize\<close> is added to the cumulative realized PnL, the balance
  grows by the margin of the netted size on both sides plus the pnl, both sizes shrink
  by \<open>collapseSize\<close>, a side that is left with size 0 gets average price 0 and a side
  with a remainder keeps its average price; a collapse record is put in front of the
  collapse list and nothing else changes. From long (2 at 100) and short (1 at 105)
  with leverage 10 this nets 1, realizes 5, leaves long (1 at 100) and short (0 at 0)
  and credits the balance with 10 + 10.5 + 5.
\<close>

theorem executeCollapse_spec:
  fixes s :: trading_engine and ts :: date
  defines "L \<equiv> size_p (longPosition s)" and "S \<equiv> size_p (shortPosition s)"
    and "la \<equiv> avgPrice (longPosition s)" and "sa \<equiv> avgPrice (shortPosition s)"
    and "c \<equiv> min (size_p (longPosition s)) (size_p (shortPosition s))"
    and "s' \<equiv> snd (executeCollapse ts s)"
  assumes "0 < leverage s"
  shows "(c \<le> 0 \<longrightarrow> executeCollapse ts s = (None, s))
    \<and> (0 < c \<longrightarrow>
         fst (executeCollapse ts s)
           = Some \<lparr>collapse_id = length (collapses s) + 1, collapse_timestamp = ts,
                   collapse_size = c, collapse_pnl = (sa - la) * c\<rparr>
         \<and> realizedPnL s' = realizedPnL s + (sa - la) * c
         \<and> balance s' = balance s + (c * la / leverage s + c * sa / leverage s + (sa - la) * c)
         \<and> size_p (longPosition s') = L - c \<and> size_p (shortPosition s') = S - c
         \<and> avgPrice (longPosition s') = (if L - c = 0 then 0 else la)
         \<and> avgPrice (shortPosition s') = (if S - c = 0 then 0 else sa)
         \<and> collapses s' = the (fst (executeCollapse ts s)) # collapses s
         \<and> trades s' = trades s \<and> leverage s' = leverage s
         \<and> initialBalance s' = initialBalance s)
    \<and> (leverage s = 10 \<and> longPosition s = \<lparr>size_p = 2, avgPrice = 100\<rparr>
         \<and> shortPosition s = \<lparr>size_p = 1, avgPrice = 105\<rparr> \<longrightarrow>
         collapse_size (the (fst (executeCollapse ts s))) = 1
         \<and> realizedPnL s' = realizedPnL s + 5
         \<and> longPosition s' = \<lparr>size_p = 1, avgPrice = 100\<rparr>
         \<and> shortPosition s' = \<lparr>size_p = 0, avgPrice = 0\<rparr>
         \<and> balance s' = balance s + (1 * 100 / 10 + 1 * 105 / 10 + 5))"
  unfolding L_def S_def la_def sa_def c_def s'_def
  by (auto simp: executeCollapse_def calculateMargin_def Let_def min_def)

theorem executeCollapse_spec_witness:
  "0 < leverage example_ledger
   \<and> 0 < min (size_p (longPosition example_ledger)) (size_p (shortPosition example_ledger))
   \<and> leverage example_ledger = 10
   \<and> longPosition example_ledger = \<lparr>size_p = 2, avgPrice = 100\<rparr>
   \<and> shortPosition example_ledger = \<lparr>size_p = 1, avgPrice = 105\<rparr>
   \<and> balance (snd (executeCollapse 0 example_ledger)) = 1025.5
   \<and> realizedPnL (snd (executeCollapse 0 example_ledger)) = 5
   \<and> longPosition (snd (executeCollapse 0 example_ledger)) = \<lparr>size_p = 1, avgPrice = 100\<rparr>
   \<and> shortPosition (snd (executeCollapse 0 example_ledger)) = \<lparr>size_p = 0, avgPrice = 0\<rparr>"
proof -
  have l: "0 < leverage example_ledger"
    by (simp add: example_ledger_def TradingEngine_reset_def TRADING_CONFIG_leverage_def)
  show ?thesis
    using executeCollapse_spec [OF l, of 0]
    by (simp add: example_ledger_def TradingEngine_reset_def TRADING_CONFIG_leverage_def)
qed

text \<open>
  C2. \<open>executeEntry\<close> computes the margin \<open>size * price / leverage\<close>. When it exceeds
  the cash balance the result is \<open>null\<close> and the whole ledger is unchanged. Otherwise
  the balance is debited by exactly the margin, the size of the requested side grows by
  the fill and its average price becomes the size-weighted average of the old position
  and the fill, the other side is untouched, one trade record is put in front of the
  trade list, the oldest being evicted beyond 100, and that trade is returned; the
  realized PnL and the collapse list are unchanged.
\<close>

theorem executeEntry_spec:
  fixes s :: trading_engine and sz price :: real and sd :: side and ts :: date
  defines "m \<equiv> sz * price / leverage s"
    and "s' \<equiv> snd (executeEntry sd price sz ts s)"
    and "t \<equiv> \<lparr>trade_id = length (trades s) + 1, trade_timestamp = ts, trade_side = sd,
               trade_price = price, trade_size = sz, trade_margin = sz * price / leverage s\<rparr>"
  assumes "0 < leverage s"
  shows "(m > balance s \<longrightarrow> executeEntry sd price sz ts s = (None, s))
    \<and> (\<not> m > balance s \<longrightarrow>
         fst (executeEntry sd price sz ts s) = Some t
         \<and> balance s' = balance s - m
         \<and> (sd = LONG \<longrightarrow> shortPosition s' = shortPosition s
               \<and> size_p (longPosition s') = size_p (longPosition s) + sz
               \<and> (0 \<le> size_p (longPosition s) \<and> 0 < size_p (longPosition s) + sz \<longrightarrow>
                    avgPrice (longPosition s')
                      = (avgPrice (longPosition s) * size_p (longPosition s) + price * sz)
                          / (size_p (longPosition s) + sz)))
         \<and> (sd = SHORT \<longrightarrow> longPosition s' = longPosition s
               \<and> size_p (shortPosition s') = size_p (shortPosition s) + sz
               \<and> (0 \<le> size_p (shortPosition s) \<and> 0 < size_p (shortPosition s) + sz \<longrightarrow>
                    avgPrice (shortPosition s')
                      = (avgPrice (shortPosition s) * size_p (shortPosition s) + price * sz)
                          / (size_p (shortPosition s) + sz)))
         \<and> trades s' = (if length (trades s) < 100 then t # trades s
                         else butlast (t # trades s))
         \<and> (length (trades s) \<le> 100 \<longrightarrow> trades s' = take 100 (t # trades s))
         \<and> realizedPnL s' = realizedPnL s \<and> collapses s' = collapses s
         \<and> leverage s' = leverage s \<and> initialBalance s' = initialBalance s)"
  unfolding m_def s'_def t_def
  apply (cases sd)
   apply (auto simp: executeEntry_def calculateMargin_def enter_def Let_def butlast_conv_take)
  done

theorem executeEntry_spec_witness:
  "0 < leverage example_ledger
   \<and> 100 * 110 / leverage example_ledger > balance example_ledger
   \<and> executeEntry LONG 110 100 0 example_ledger = (None, example_ledger)
   \<and> \<not> 1 * 110 / leverage example_ledger > balance example_ledger
   \<and> 0 \<le> size_p (longPosition example_ledger)
   \<and> 0 < size_p (longPosition example_ledger) + 1
   \<and> length (trades example_ledger) \<le> 100
   \<and> balance (snd (executeEntry LONG 110 1 0 example_ledger)) = 989
   \<and> size_p (longPosition (snd (executeEntry LONG 110 1 0 example_ledger))) = 3
   \<and> avgPrice (longPosition (snd (executeEntry LONG 110 1 0 example_ledger))) = 310 / 3
   \<and> shortPosition (snd (executeEntry LONG 110 1 0 example_ledger))
       = \<lparr>size_p = 1, avgPrice = 105\<rparr>
   \<and> trades (snd (executeEntry LONG 110 1 0 example_ledger))
       = [\<lparr>trade_id = 1, trade_timestamp = 0, trade_side = LONG, trade_price = 110,
           trade_size = 1, trade_margin = 11\<rparr>]"
proof -
  have l: "0 < leverage example_ledger"
    by (simp add: example_ledger_def TradingEngine_reset_def TRADING_CONFIG_leverage_def)
  show ?thesis
    using executeEntry_spec [OF l, where sd = LONG and price = 110 and sz = 100 and ts = 0]
      executeEntry_spec [OF l, where sd = LONG and price = 110 and sz = 1 and ts = 0]
    by (simp add: example_ledger_def TradingEngine_reset_def TRADING_CONFIG_leverage_def)
qed

text \<open>
  C5. The position invariant holds after \<open>reset\<close> and is preserved by
  \<open>executeCollapse\<close> and by every entry of positive size. An entry of size 0 on a side
  that holds nothing is accepted (its margin is 0) and leaves that side with size 0 and
  the fill price as average price: after \<open>reset(1000)\<close>,
  \<open>executeEntry('LONG', 100, 0)\<close> returns a trade and the long position is
  \<open>{size: 0, avgPrice: 100}\<close>.
\<close>

theorem executeEntry_zero_size:
  "fst (executeEntry LONG 100 0 0 (TradingEngine_reset 1000))
     = Some \<lparr>trade_id = 1, trade_timestamp = 0, trade_side = LONG, trade_price = 100,
             trade_size = 0, trade_margin = 0\<rparr>
   \<and> longPosition (TradingEngine_reset 1000) = \<lparr>size_p = 0, avgPrice = 0\<rparr>
   \<and> longPosition (snd (executeEntry LONG 100 0 0 (TradingEngine_reset 1000)))
     = \<lparr>size_p = 0, avgPrice = 100\<rparr>"
  by (simp add: executeEntry_def enter_def calculateMargin_def TradingEngine_reset_def
      TRADING_CONFIG_leverage_def Let_def)

lemma position_invariant_reset: "position_invariant (TradingEngine_reset b)"
  by (simp add: position_invariant_def TradingEngine_reset_def)

lemma position_invariant_executeCollapse:
  "position_invariant s \<Longrightarrow> position_invariant (snd (executeCollapse ts s))"
  by (auto simp: position_invariant_def executeCollapse_def Let_def min_def)

lemma position_invariant_executeEntry:
  assumes "position_invariant s" and "0 < sz"
  shows "position_invariant (snd (executeEntry sd price sz ts s))"
  using assms
  by (cases sd) (auto simp: position_invariant_def executeEntry_def enter_def Let_def)

text \<open>
  C6, as stated, fails: \<open>executeCollapse\<close> can drive the cash balance below 0. From
  \<open>reset(30)\<close>, a long entry of 1 at 200 and a short entry of 1 at 100 are both accepted
  and leave the balance at 0; the collapse then credits 20 + 10 - 100.
\<close>

theorem executeCollapse_negative_balance:
  "balance (TradingEngine_reset 30) = 30
   \<and> balance (snd (executeEntry LONG 200 1 0 (TradingEngine_reset 30))) = 10
   \<and> balance loss_ledger = 0
   \<and> longPosition loss_ledger = \<lparr>size_p = 1, avgPrice = 200\<rparr>
   \<and> shortPosition loss_ledger = \<lparr>size_p = 1, avgPrice = 100\<rparr>
   \<and> balance (snd (executeCollapse 0 loss_ledger)) = - 70"
  by (simp add: loss_ledger_def executeCollapse_def executeEntry_def enter_def calculateMargin_def
      TradingEngine_reset_def TRADING_CONFIG_leverage_def Let_def)

text \<open>
  C6, amended. From a cash balance that is not negative, \<open>executeEntry\<close> never makes it
  negative: the entry is either rejected with the ledger unchanged or debits exactly its
  margin, which does not exceed the balance. \<open>executeCollapse\<close> changes the balance by
  \<open>collapseSize * (longAvg / leverage + shortAvg / leverage + shortAvg - longAvg)\<close>, a
  credit that is negative when the long average price is high enough above the short
  one.
\<close>

theorem balance_after_operations:
  fixes s :: trading_engine
  assumes "0 \<le> balance s" and "0 < leverage s"
  shows "0 \<le> balance (snd (executeEntry sd price sz ts s))
    \<and> (executeEntry sd price sz ts s = (None, s)
         \<or> balance (snd (executeEntry sd price sz ts s)) = balance s - sz * price / leverage s)
    \<and> balance (snd (executeCollapse ts s))
        = balance s +
          (let c = min (size_p (longPosition s)) (size_p (shortPosition s)) in
           if c \<le> 0 then 0
           else c * (avgPrice (longPosition s) / leverage s + avgPrice (shortPosition s) / leverage s
                     + avgPrice (shortPosition s) - avgPrice (longPosition s)))"
  using assms
  apply (cases sd)
   apply (auto simp: executeEntry_def executeCollapse_def calculateMargin_def Let_def algebra_simps)
  done

theorem balance_after_operations_witness:
  "0 \<le> balance example_ledger \<and> 0 < leverage example_ledger
   \<and> balance (snd (executeEntry SHORT 110 1 0 example_ledger)) = 989
   \<and> balance (snd (executeCollapse 0 example_ledger)) = 1025.5"
  using balance_after_operations [where s = example_ledger and sd = SHORT and price = 110
      and sz = 1 and ts = 0]
  by (simp add: example_ledger_def TradingEngine_reset_def TRADING_CONFIG_leverage_def
      executeEntry_def calculateMargin_def Let_def)

text \<open>
  C9. A successful \<open>executeCollapse\<close> preserves the equity at every evaluation price:
  with both sizes positive the collapse returns a record, and \<open>calculateEquity(P)\<close>
  is the same before and after.
\<close>

theorem executeCollapse_preserves_equity:
  fixes s :: trading_engine and P :: real
  assumes "0 < size_p (longPosition s)" and "0 < size_p (shortPosition s)"
    and "0 < leverage s"
  shows "fst (executeCollapse ts s) \<noteq> None
    \<and> calculateEquity (snd (executeCollapse ts s)) P = calculateEquity s P"
  using assms
  by (auto simp: executeCollapse_def calculateEquity_def calculateUnrealizedPnL_def
      calculateMargin_def Let_def min_def algebra_simps diff_divide_distrib add_divide_distrib)

theorem executeCollapse_preserves_equity_witness:
  "0 < size_p (longPosition example_ledger) \<and> 0 < size_p (shortPosition example_ledger)
   \<and> 0 < leverage example_ledger
   \<and> calculateEquity example_ledger 103 = 1038.5
   \<and> calculateEquity (snd (executeCollapse 0 example_ledger)) 103 = 1038.5"
  using executeCollapse_preserves_equity [of example_ledger 0 103]
  by (simp add: example_ledger_def TradingEngine_reset_def TRADING_CONFIG_leverage_def
      calculateEquity_def calculateUnrealizedPnL_def calculateMargin_def Let_def)

section \<open>Orchestrator fills\<close>

lemma unit_interval_of_nat:
  fixes n :: nat
  assumes "n < 4294967296"
  shows "0 \<le> real n / 4294967296 \<and> real n / 4294967296 < 1"
  using assms by simp

lemma unat_32_bound: "unat (w :: 32 word) < 4294967296"
  using unsigned_less [of w, where ?'a = nat] by simp

lemma SeededRNG_random_range:
  "0 \<le> fst (SeededRNG_random r) \<and> fst (SeededRNG_random r) < 1"
  unfolding SeededRNG_random_def Let_def fst_conv
  by (rule unit_interval_of_nat [OF unat_32_bound])

lemma orchestrator_margin_bound:
  fixes s :: trading_engine and price fp :: real
  assumes "0 \<le> balance s" and "0 < leverage s" and "0 < price" and "0 \<le> fp" and "fp \<le> 1"
  shows "calculateMargin s (calculateOrderSize s price * fp) price
           = fp * min TRADING_CONFIG_orderSizeUSD (balance s * leverage s) / leverage s"
    and "calculateMargin s (calculateOrderSize s price * fp) price \<le> balance s"
proof -
  let ?n = "min TRADING_CONFIG_orderSizeUSD (balance s * leverage s)"
  show eq: "calculateMargin s (calculateOrderSize s price * fp) price = fp * ?n / leverage s"
    using assms(3) by (simp add: calculateMargin_def calculateOrderSize_def Let_def)
  have "fp * ?n \<le> 1 * (balance s * leverage s)"
  proof (rule mult_mono)
    show "fp \<le> 1" by (rule assms(5))
    show "?n \<le> balance s * leverage s" by simp
    show "(0::real) \<le> 1" by simp
    show "0 \<le> ?n" using assms(1,2) by (simp add: TRADING_CONFIG_orderSizeUSD_def)
  qed
  then have "fp * ?n / leverage s \<le> balance s"
    using assms(2) by (simp add: pos_divide_le_eq)
  with eq show "calculateMargin s (calculateOrderSize s price * fp) price \<le> balance s"
    by simp
qed

text \<open>
  C10. On the tick path the margin check never rejects: with a cash balance that is not
  negative and a positive quote on the side that is hit, the entry that
  \<open>simulateMarketActivity\<close> attempts when it draws a fill has the margin
  \<open>fillPercentage * min(orderSizeUSD, balance * leverage) / leverage\<close>, which does
  not exceed the balance, and \<open>executeEntry\<close> returns the trade.
\<close>

theorem simulateMarketActivity_never_rejected:
  fixes e :: simulation_engine and ts :: date
  defines "u \<equiv> fst (SeededRNG_random (rng e))"
    and "v \<equiv> fst (SeededRNG_random (snd (SeededRNG_random (rng e))))"
    and "w \<equiv> fst (SeededRNG_random (snd (SeededRNG_random (snd (SeededRNG_random (rng e))))))"
  defines "price \<equiv> (if v < 0.5 then ask (currentQuotes e) else bid (currentQuotes e))"
  assumes "0 \<le> balance (tradingEngine e)" and "0 < leverage (tradingEngine e)"
    and "0 < price" and "u \<le> 0.25"
  shows "\<exists>t. fst (simulateMarketActivity ts e) = Some t
    \<and> trade_side t = (if v < 0.5 then SHORT else LONG)
    \<and> trade_price t = price
    \<and> trade_margin t
        = (0.5 + w * 0.5)
          * min TRADING_CONFIG_orderSizeUSD (balance (tradingEngine e) * leverage (tradingEngine e))
          / leverage (tradingEngine e)
    \<and> trade_margin t \<le> balance (tradingEngine e)"
proof -
  let ?fp = "0.5 + w * 0.5"
  let ?te = "tradingEngine e"
  have w: "0 \<le> w" "w < 1"
    using SeededRNG_random_range [of "snd (SeededRNG_random (snd (SeededRNG_random (rng e))))"]
    by (simp_all add: w_def)
  then have fp: "0 \<le> ?fp" "?fp \<le> 1" by simp_all
  have m: "calculateMargin ?te (calculateOrderSize ?te price * ?fp) price
            = ?fp * min TRADING_CONFIG_orderSizeUSD (balance ?te * leverage ?te) / leverage ?te"
    "calculateMargin ?te (calculateOrderSize ?te price * ?fp) price \<le> balance ?te"
    using orchestrator_margin_bound [OF assms(5) assms(6) assms(7) fp] by simp_all
  have res: "fst (executeEntry sd price (calculateOrderSize ?te price * ?fp) ts ?te)
      = Some \<lparr>trade_id = length (trades ?te) + 1, trade_timestamp = ts, trade_side = sd,
          trade_price = price, trade_size = calculateOrderSize ?te price * ?fp,
          trade_margin = calculateMargin ?te (calculateOrderSize ?te price * ?fp) price\<rparr>" for sd
    using m(2) by (cases sd) (simp_all add: executeEntry_def Let_def)
  show ?thesis
  proof (cases "v < 0.5")
    case True
    then have p: "price = ask (currentQuotes e)" by (simp add: price_def)
    have "fst (simulateMarketActivity ts e)
        = fst (executeEntry SHORT price (calculateOrderSize ?te price * ?fp) ts ?te)"
      using True assms(8)
      by (simp add: simulateMarketActivity_def Let_def split_beta u_def v_def w_def p)
    with res [of SHORT] m True show ?thesis by simp
  next
    case False
    then have p: "price = bid (currentQuotes e)" by (simp add: price_def)
    have "fst (simulateMarketActivity ts e)
        = fst (executeEntry LONG price (calculateOrderSize ?te price * ?fp) ts ?te)"
      using False assms(8)
      by (simp add: simulateMarketActivity_def Let_def split_beta u_def v_def w_def p)
    with res [of LONG] m False show ?thesis by simp
  qed
qed

lemma fill_engine_draws:
  "fst (SeededRNG_random (rng fill_engine)) = 50271532 / 4294967296"
  "fst (SeededRNG_random (snd (SeededRNG_random (rng fill_engine)))) = 266108690 / 4294967296"
  "fst (SeededRNG_random (snd (SeededRNG_random (snd (SeededRNG_random (rng fill_engine))))))
     = 4195786334 / 4294967296"
  by (simp_all add: fill_engine_def SeededRNG_new_def SeededRNG_random_def Let_def)

theorem simulateMarketActivity_never_rejected_witness:
  "0 \<le> balance (tradingEngine fill_engine) \<and> 0 < leverage (tradingEngine fill_engine)
   \<and> fst (SeededRNG_random (rng fill_engine)) \<le> 0.25
   \<and> fst (SeededRNG_random (snd (SeededRNG_random (rng fill_engine)))) < 0.5
   \<and> 0 < ask (currentQuotes fill_engine)
   \<and> (\<exists>t. fst (simulateMarketActivity 0 fill_engine) = Some t
         \<and> trade_side t = SHORT \<and> trade_price t = 95010
         \<and> trade_margin t \<le> balance (tradingEngine fill_engine))"
  using simulateMarketActivity_never_rejected [of fill_engine 0]
  by (simp add: fill_engine_draws)
    (auto simp: fill_engine_def example_engine_def setAsset_def SimulationEngine_new_def
      TradingEngine_reset_def TRADING_CONFIG_leverage_def TRADING_CONFIG_defaultBalance_def)

section \<open>Properties of the average true range\<close>

lemma atr_loop_eq:
  "atr_loop cs lb i acc
     = acc @ map (\<lambda>j. trueRange (cs ! (length cs - lb + j - 1)) (cs ! (length cs - lb + j)))
               [i..<lb]"
proof (induction cs lb i acc rule: atr_loop.induct)
  case (1 cs lb i acc)
  show ?case
  proof (cases "i < lb")
    case True
    with "1.IH" [OF True] show ?thesis
      by (subst atr_loop.simps) (simp add: upt_conv_Cons trueRange_def)
  next
    case False
    then show ?thesis
      by (subst atr_loop.simps) simp
  qed
qed

lemma length_atr_loop: "length (atr_loop cs lb i acc) = length acc + (lb - i)"
  by (simp add: atr_loop_eq)

lemma foldl_plus_sum_list:
  fixes a :: real
  shows "foldl (\<lambda>sum tr. sum + tr) a xs = a + sum_list xs"
  by (induction xs arbitrary: a) simp_all

lemma last_pairs_eq:
  assumes "lb \<le> length cs" and "1 \<le> lb"
  shows "map (\<lambda>j. trueRange (cs ! (length cs - lb + j - 1)) (cs ! (length cs - lb + j))) [1..<lb]
       = map (\<lambda>(previous, current). trueRange previous current)
           (drop (length (zip (butlast cs) (tl cs)) - (lb - 1)) (zip (butlast cs) (tl cs)))"
proof (rule nth_equalityI)
  show "length (map (\<lambda>j. trueRange (cs ! (length cs - lb + j - 1)) (cs ! (length cs - lb + j))) [1..<lb])
      = length (map (\<lambda>(previous, current). trueRange previous current)
           (drop (length (zip (butlast cs) (tl cs)) - (lb - 1)) (zip (butlast cs) (tl cs))))"
    using assms by simp
next
  fix k
  assume "k < length (map (\<lambda>j. trueRange (cs ! (length cs - lb + j - 1)) (cs ! (length cs - lb + j))) [1..<lb])"
  then have k: "k < lb - 1" by simp
  with assms have idx: "length cs - 1 - (lb - 1) + k < length cs - 1" by linarith
  have d: "length cs - 1 - (lb - 1) + k = length cs - lb + k" using assms by linarith
  have "drop (length (zip (butlast cs) (tl cs)) - (lb - 1)) (zip (butlast cs) (tl cs)) ! k
      = (cs ! (length cs - lb + k), cs ! (length cs - lb + k + 1))"
    using idx k assms by (simp add: nth_butlast nth_tl d)
  then show "map (\<lambda>j. trueRange (cs ! (length cs - lb + j - 1)) (cs ! (length cs - lb + j))) [1..<lb] ! k
      = map (\<lambda>(previous, current). trueRange previous current)
          (drop (length (zip (butlast cs) (tl cs)) - (lb - 1)) (zip (butlast cs) (tl cs))) ! k"
    using k assms by (simp add: Suc_diff_le)
qed

text \<open>
  C7. \<open>calculateATR\<close> returns 0 on fewer than 2 candles and otherwise, for a lookback
  length of at least 1, the arithmetic mean of the true ranges of the last
  \<open>min (len - 1) N\<close> adjacent pairs (for the length 0 there is no pair, and it
  returns 0); on the candles (10, 8, 9) and (11, 9, 10) with length 1 it returns 2.
\<close>

theorem calculateATR_spec:
  "(length cs < 2 \<longrightarrow> calculateATR cs N = 0)
   \<and> (N = 0 \<longrightarrow> calculateATR cs N = 0)
   \<and> (2 \<le> length cs \<and> 1 \<le> N \<longrightarrow> calculateATR cs N = ATR_spec cs N)
   \<and> calculateATR example_candles 1 = 2"
proof (intro conjI impI)
  show "calculateATR cs N = 0" if "length cs < 2"
    using that by (simp add: calculateATR_def)
  show "calculateATR cs N = 0" if "N = 0"
    using that by (simp add: calculateATR_def Let_def length_atr_loop)
  show "calculateATR cs N = ATR_spec cs N" if h: "2 \<le> length cs \<and> 1 \<le> N"
  proof -
    let ?lb = "min (length cs) (N + 1)"
    have lb: "?lb \<le> length cs" "1 \<le> ?lb" "?lb - 1 = min (length cs - 1) N" "2 \<le> ?lb"
      using h by auto
    have m: "min (length cs) (Suc N) = Suc (min (length cs - Suc 0) N)"
      using h by auto
    have "calculateATR cs N
        = sum_list (atr_loop cs ?lb 1 []) / real (min (length cs - Suc 0) N)"
      using h by (simp add: calculateATR_def Let_def length_atr_loop foldl_plus_sum_list m)
    also have "atr_loop cs ?lb 1 []
        = map (\<lambda>(previous, current). trueRange previous current)
            (drop (length (zip (butlast cs) (tl cs)) - (?lb - 1)) (zip (butlast cs) (tl cs)))"
      using last_pairs_eq [OF lb(1) lb(2)] by (simp add: atr_loop_eq)
    finally show ?thesis
      using h by (simp add: ATR_spec_def Let_def m)
  qed
  show "calculateATR example_candles 1 = 2"
    by (simp add: calculateATR_def Let_def example_candles_def atr_loop_eq trueRange_def
        upt_conv_Cons)
qed

theorem calculateATR_spec_witness:
  "2 \<le> length example_candles \<and> (1::nat) \<le> 1 \<and> ATR_spec example_candles 1 = 2
   \<and> length (tl example_candles) < 2 \<and> calculateATR (tl example_candles) 1 = 0"
  using calculateATR_spec [of example_candles 1] calculateATR_spec [of "tl example_candles" 1]
  by (simp add: example_candles_def)

section \<open>Properties of the quotes\<close>

lemma Math_round_mono: "x \<le> y \<Longrightarrow> Math_round x \<le> Math_round y"
  by (simp add: Math_round_def floor_mono)

lemma Math_round_nearest: "\<bar>Math_round x - x\<bar> \<le> 1 / 2"
  unfolding Math_round_def by linarith

lemma roundPrice_mono:
  assumes "0 < tickSize c" and "x \<le> y"
  shows "roundPrice x c \<le> roundPrice y c"
proof (cases "decimals c = 0")
  case True
  then show ?thesis using assms(2) by (simp add: roundPrice_def Math_round_mono)
next
  case False
  have "x / tickSize c \<le> y / tickSize c"
    using assms by (simp add: divide_right_mono)
  then have "Math_round (x / tickSize c) \<le> Math_round (y / tickSize c)"
    by (rule Math_round_mono)
  then show ?thesis
    using False assms(1) by (simp add: roundPrice_def mult_right_mono)
qed

lemma roundPrice_nearest:
  assumes "0 < tickSize c"
  shows "decimals c = 0 \<longrightarrow>
           (\<exists>k::int. roundPrice x c = of_int k) \<and> \<bar>roundPrice x c - x\<bar> \<le> 1 / 2"
    and "decimals c \<noteq> 0 \<longrightarrow>
           (\<exists>k::int. roundPrice x c = of_int k * tickSize c)
           \<and> \<bar>roundPrice x c - x\<bar> \<le> tickSize c / 2"
proof -
  show "decimals c = 0 \<longrightarrow>
           (\<exists>k::int. roundPrice x c = of_int k) \<and> \<bar>roundPrice x c - x\<bar> \<le> 1 / 2"
    using Math_round_nearest [of x] by (auto simp: roundPrice_def Math_round_def)
  show "decimals c \<noteq> 0 \<longrightarrow>
           (\<exists>k::int. roundPrice x c = of_int k * tickSize c)
           \<and> \<bar>roundPrice x c - x\<bar> \<le> tickSize c / 2"
  proof (intro impI conjI)
    assume d: "decimals c \<noteq> 0"
    then show "\<exists>k::int. roundPrice x c = of_int k * tickSize c"
      by (auto simp: roundPrice_def Math_round_def)
    have "\<bar>Math_round (x / tickSize c) - x / tickSize c\<bar> * tickSize c \<le> 1 / 2 * tickSize c"
      using Math_round_nearest [of "x / tickSize c"] assms by (simp add: mult_right_mono)
    moreover have "\<bar>Math_round (x / tickSize c) - x / tickSize c\<bar> * tickSize c
        = \<bar>Math_round (x / tickSize c) * tickSize c - x\<bar>"
    proof -
      have "\<bar>Math_round (x / tickSize c) - x / tickSize c\<bar> * tickSize c
          = \<bar>(Math_round (x / tickSize c) - x / tickSize c) * tickSize c\<bar>"
        using assms by (simp add: abs_mult)
      also have "(Math_round (x / tickSize c) - x / tickSize c) * tickSize c
          = Math_round (x / tickSize c) * tickSize c - x"
        using assms by (simp add: left_diff_distrib)
      finally show ?thesis .
    qed
    ultimately show "\<bar>roundPrice x c - x\<bar> \<le> tickSize c / 2"
      using d by (simp add: roundPrice_def)
  qed
qed

text \<open>
  C3. For a configuration with positive tick size and positive maximal position, the
  quotes satisfy \<open>ask - bid \<ge> 0\<close> after rounding and the base spread is at least two
  ticks. Rounding is to the nearest integer when the configuration has 0 decimals and to
  the nearest multiple of the tick size otherwise.
\<close>

theorem calculateQuotes_invariant:
  fixes c :: asset_config and mid atr longSize shortSize :: real
  defines "q \<equiv> calculateQuotes mid atr longSize shortSize c"
  assumes "0 < tickSize c" and "0 < maxPosition c"
  shows "ask q - bid q \<ge> 0
    \<and> actualSpread q = ask q - bid q
    \<and> baseSpread q \<ge> 2 * tickSize c
    \<and> baseSpread q = max (2 * tickSize c) (kVol c * atr)
    \<and> bid q = roundPrice (mid - baseSpread q / 2 - skew q) c
    \<and> ask q = roundPrice (mid + baseSpread q / 2 - skew q) c
    \<and> (decimals c = 0 \<longrightarrow>
          (\<exists>k::int. bid q = of_int k) \<and> (\<exists>k::int. ask q = of_int k)
          \<and> \<bar>bid q - (mid - baseSpread q / 2 - skew q)\<bar> \<le> 1 / 2
          \<and> \<bar>ask q - (mid + baseSpread q / 2 - skew q)\<bar> \<le> 1 / 2)
    \<and> (decimals c \<noteq> 0 \<longrightarrow>
          (\<exists>k::int. bid q = of_int k * tickSize c) \<and> (\<exists>k::int. ask q = of_int k * tickSize c)
          \<and> \<bar>bid q - (mid - baseSpread q / 2 - skew q)\<bar> \<le> tickSize c / 2
          \<and> \<bar>ask q - (mid + baseSpread q / 2 - skew q)\<bar> \<le> tickSize c / 2)"
proof -
  let ?bs = "max (tickSize c * 2) (kVol c * atr)"
  let ?sk = "kPos c * ((longSize - shortSize) / maxPosition c) * ?bs"
  have q: "bid q = roundPrice (mid - ?bs / 2 - ?sk) c" "ask q = roundPrice (mid + ?bs / 2 - ?sk) c"
    "baseSpread q = ?bs" "skew q = ?sk" "actualSpread q = ask q - bid q"
    by (simp_all add: q_def calculateQuotes_def Let_def)
  have bs: "0 \<le> ?bs" "2 * tickSize c \<le> ?bs"
    using assms(2) by simp_all
  then have "mid - ?bs / 2 - ?sk \<le> mid + ?bs / 2 - ?sk" by simp
  then have le: "bid q \<le> ask q"
    unfolding q by (rule roundPrice_mono [OF assms(2)])
  show ?thesis
    using le bs(2) roundPrice_nearest [OF assms(2), of "mid - ?bs / 2 - ?sk"]
      roundPrice_nearest [OF assms(2), of "mid + ?bs / 2 - ?sk"]
    by (simp add: q mult.commute)
qed

theorem calculateQuotes_invariant_witness:
  "0 < tickSize (ASSET_CONFIGS BTC) \<and> 0 < maxPosition (ASSET_CONFIGS BTC)
   \<and> decimals (ASSET_CONFIGS BTC) = 0
   \<and> ask (calculateQuotes 95000 120 0.1 0 (ASSET_CONFIGS BTC))
       - bid (calculateQuotes 95000 120 0.1 0 (ASSET_CONFIGS BTC)) \<ge> 0
   \<and> baseSpread (calculateQuotes 95000 120 0.1 0 (ASSET_CONFIGS BTC)) \<ge> 2
   \<and> 0 < tickSize (ASSET_CONFIGS ETH) \<and> 0 < maxPosition (ASSET_CONFIGS ETH)
   \<and> decimals (ASSET_CONFIGS ETH) \<noteq> 0
   \<and> ask (calculateQuotes 3300 0 0 2 (ASSET_CONFIGS ETH))
       - bid (calculateQuotes 3300 0 0 2 (ASSET_CONFIGS ETH)) \<ge> 0
   \<and> baseSpread (calculateQuotes 3300 0 0 2 (ASSET_CONFIGS ETH)) \<ge> 0.02"
proof -
  have b: "0 < tickSize (ASSET_CONFIGS BTC)" "0 < maxPosition (ASSET_CONFIGS BTC)"
    "decimals (ASSET_CONFIGS BTC) = 0" "2 * tickSize (ASSET_CONFIGS BTC) = 2"
    by simp_all
  have e: "0 < tickSize (ASSET_CONFIGS ETH)" "0 < maxPosition (ASSET_CONFIGS ETH)"
    "decimals (ASSET_CONFIGS ETH) \<noteq> 0" "2 * tickSize (ASSET_CONFIGS ETH) = 0.02"
    by simp_all
  note B = calculateQuotes_invariant [OF b(1,2), where mid = 95000 and atr = 120
      and longSize = "0.1" and shortSize = 0]
  note E = calculateQuotes_invariant [OF e(1,2), where mid = 3300 and atr = 0
      and longSize = 0 and shortSize = 2]
  show ?thesis
    using b(1-3) e(1-3) B [THEN conjunct1] E [THEN conjunct1]
      B [THEN conjunct2, THEN conjunct2, THEN conjunct1, unfolded b(4)]
      E [THEN conjunct2, THEN conjunct2, THEN conjunct1, unfolded e(4)]
    by (intro conjI)
qed

section \<open>Properties of the price simulation\<close>

lemma volatility_positive:
  "0 < baseVol a * VOLATILITY_REGIMES_factor g"
  by (cases a; cases g) simp_all



lemma generateTick_Num:
  assumes "SeededRNG_randomNormal 0 1 r = (Num z, r')" and "0 \<le> dt"
  shows "generateTick dt now r ps
     = (let p = max (currentPrice ps + drift ps * currentPrice ps * dt
                     + baseVol (asset_ps ps) * VOLATILITY_REGIMES_factor (volatilityRegime ps)
                       * currentPrice ps * sqrt dt * z)
                  (tickSize (config_ps ps))
        in case updateCandle p now (ps\<lparr>currentPrice := p\<rparr>) of
             None \<Rightarrow> Throws (r', ps\<lparr>currentPrice := p\<rparr>)
           | Some ps' \<Rightarrow> Returns (p, r', ps'))"
  using assms by (simp add: generateTick_def Let_def add.assoc)

lemma generateTick_NegInfinity:
  assumes "SeededRNG_randomNormal 0 1 r = (NegInfinity, r')" and "0 < dt"
    and "0 < currentPrice ps"
  shows "generateTick dt now r ps
     = (let p = tickSize (config_ps ps)
        in case updateCandle p now (ps\<lparr>currentPrice := p\<rparr>) of
             None \<Rightarrow> Throws (r', ps\<lparr>currentPrice := p\<rparr>)
           | Some ps' \<Rightarrow> Returns (p, r', ps'))"
proof -
  have "0 < baseVol (asset_ps ps) * VOLATILITY_REGIMES_factor (volatilityRegime ps)
        * currentPrice ps * sqrt dt"
    using volatility_positive [of "asset_ps ps" "volatilityRegime ps"] assms(2,3) by simp
  then show ?thesis
    using assms(1,2) by (simp add: generateTick_def Let_def)
qed

lemma generateTick_result:
  fixes ps :: price_simulator and r r' :: seeded_rng and dt z :: real and now :: date
  assumes "SeededRNG_randomNormal 0 1 r = (Num z, r')" and "0 \<le> dt"
    and "candleStartTime ps \<noteq> None \<longrightarrow> currentCandle ps \<noteq> None"
  shows "\<exists>ps'. generateTick dt now r ps
           = Returns (max (currentPrice ps + drift ps * currentPrice ps * dt
                        + baseVol (asset_ps ps) * VOLATILITY_REGIMES_factor (volatilityRegime ps)
                          * currentPrice ps * sqrt dt * z)
                     (tickSize (config_ps ps)), r', ps')
         \<and> currentPrice ps'
           = max (currentPrice ps + drift ps * currentPrice ps * dt
                  + baseVol (asset_ps ps) * VOLATILITY_REGIMES_factor (volatilityRegime ps)
                    * currentPrice ps * sqrt dt * z)
               (tickSize (config_ps ps))"
proof -
  let ?p = "max (currentPrice ps + drift ps * currentPrice ps * dt
                  + baseVol (asset_ps ps) * VOLATILITY_REGIMES_factor (volatilityRegime ps)
                    * currentPrice ps * sqrt dt * z)
               (tickSize (config_ps ps))"
  have "\<exists>ps'. updateCandle ?p now (ps\<lparr>currentPrice := ?p\<rparr>) = Some ps' \<and> currentPrice ps' = ?p"
    using assms(3) by (auto simp: updateCandle_def Let_def split: option.splits)
  then obtain ps' where u: "updateCandle ?p now (ps\<lparr>currentPrice := ?p\<rparr>) = Some ps'"
    and p: "currentPrice ps' = ?p" by blast
  have "generateTick dt now r ps = Returns (?p, r', ps')"
    using u by (simp add: generateTick_Num [OF assms(1,2)] Let_def)
  with p show ?thesis by blast
qed


lemma example_draws:
  "fst (SeededRNG_random (SeededRNG_new 12345)) = 4207900869 / 4294967296"
  "fst (SeededRNG_random (snd (SeededRNG_random (SeededRNG_new 12345)))) = 1317490944 / 4294967296"
  "snd (SeededRNG_random (snd (SeededRNG_random (SeededRNG_new 12345))))
     = \<lparr>seed = 12345, state = 3663143971\<rparr>"
  "fst (SeededRNG_random \<lparr>seed = 12345, state = 3663143971\<rparr>) = 2079646450 / 4294967296"
  by (simp_all add: SeededRNG_new_def SeededRNG_random_def Let_def)

lemma example_normal:
  "SeededRNG_randomNormal 0 1 (SeededRNG_new 12345)
     = (Num (sqrt (- 2 * ln (4207900869 / 4294967296)) * cos (2 * pi * (1317490944 / 4294967296))),
        \<lparr>seed = 12345, state = 3663143971\<rparr>)"
  by (simp add: SeededRNG_randomNormal_def split_beta example_draws Let_def)

lemma word_xor_eq_0:
  fixes a b :: "32 word"
  shows "a XOR b = 0 \<longleftrightarrow> a = b"
  by (metis bit.xor_left_self xor.right_neutral)

lemma drop_bit_fix:
  fixes w :: "32 word"
  assumes "w = drop_bit k w" and "0 < k"
  shows "w = 0"
proof (rule ccontr)
  assume "w \<noteq> 0"
  then have pos: "0 < unat w" by (simp add: unat_gt_0)
  have "unat w = drop_bit k (unat w)"
    by (rule trans [OF arg_cong [OF assms(1), of unat] unat_drop_bit_eq])
  then have "unat w = unat w div 2 ^ k"
    by (simp only: drop_bit_eq_div)
  moreover have "unat w div 2 ^ k < unat w"
    using pos assms(2) by (intro div_less_dividend one_less_power) simp_all
  ultimately show False by simp
qed

lemma xorshift_zero:
  fixes w :: "32 word"
  assumes "w XOR drop_bit k w = 0" and "0 < k"
  shows "w = 0"
  using assms drop_bit_fix [of w k] by (simp add: word_xor_eq_0)

lemma odd_mult_zero:
  fixes a b :: "32 word"
  assumes "odd b" and "a * b = 0"
  shows "a = 0"
proof -
  have "unat (a * b) = unat a * unat b mod 2 ^ 32"
    by (simp add: unat_word_ariths)
  with assms(2) have "(2::nat) ^ 32 dvd unat a * unat b"
    by (simp add: dvd_eq_mod_eq_0)
  moreover have "odd (unat b)"
    using assms(1) by (simp flip: bit_0 add: bit_unsigned_iff)
  then have "coprime ((2::nat) ^ 32) (unat b)"
    by (subst coprime_power_left_iff) simp
  ultimately have "(2::nat) ^ 32 dvd unat a"
    by (simp only: coprime_dvd_mult_left_iff)
  moreover have "unat a < 2 ^ 32"
    using unsigned_less [of a, where ?'a = nat] by simp
  ultimately have "unat a = 0"
    by (meson dvd_imp_le not_le neq0_conv)
  then show ?thesis by (simp add: unat_eq_zero)
qed

lemma mulberry_zero:
  fixes t0 :: "32 word"
  defines "t1 \<equiv> (t0 XOR drop_bit 15 t0) * (t0 OR 1)"
  defines "t2 \<equiv> t1 XOR (t1 + (t1 XOR drop_bit 7 t1) * (t1 OR 61))"
  shows "t2 XOR drop_bit 14 t2 = 0 \<longleftrightarrow> t0 = 0"
proof
  assume "t0 = 0"
  then show "t2 XOR drop_bit 14 t2 = 0" by (simp add: t2_def t1_def)
next
  assume "t2 XOR drop_bit 14 t2 = 0"
  then have "t2 = 0" by (rule xorshift_zero) simp
  then have "t1 = t1 + (t1 XOR drop_bit 7 t1) * (t1 OR 61)"
    by (simp add: t2_def word_xor_eq_0)
  then have "(t1 XOR drop_bit 7 t1) * (t1 OR 61) = 0" by simp
  moreover have "odd (t1 OR 61)" by (simp add: even_or_iff)
  ultimately have "t1 XOR drop_bit 7 t1 = 0" by (rule odd_mult_zero [rotated])
  then have "t1 = 0" by (rule xorshift_zero) simp
  then have "(t0 XOR drop_bit 15 t0) * (t0 OR 1) = 0" by (simp add: t1_def)
  moreover have "odd (t0 OR 1)" by (simp add: even_or_iff)
  ultimately have "t0 XOR drop_bit 15 t0 = 0" by (rule odd_mult_zero [rotated])
  then show "t0 = 0" by (rule xorshift_zero) simp
qed

lemma SeededRNG_random_zero_word:
  "fst (SeededRNG_random r) = 0 \<longleftrightarrow> (word_of_int (state r + 1831565813) :: 32 word) = 0"
proof -
  have a: "real n / 4294967296 = 0 \<longleftrightarrow> n = 0" for n :: nat by simp
  show ?thesis
    unfolding SeededRNG_random_def Let_def fst_conv
    by (simp only: a unat_eq_zero mulberry_zero)
qed

lemma SeededRNG_random_zero_iff:
  "fst (SeededRNG_random r) = 0 \<longleftrightarrow> (state r + 1831565813) mod 2 ^ 32 = 0"
proof -
  have "fst (SeededRNG_random r) = 0 \<longleftrightarrow> (word_of_int (state r + 1831565813) :: 32 word) = 0"
    by (rule SeededRNG_random_zero_word)
  also have "\<dots> \<longleftrightarrow> (state r + 1831565813) mod 2 ^ 32 = 0"
    by (simp only: word_of_int_eq_0_iff dvd_eq_mod_eq_0) simp
  finally show ?thesis .
qed

text \<open>
  After a draw that is 0 the word of the generator is \<open>0x6D2B79F5\<close>, whatever the
  state, so the second draw of the normal draw is the same number, whose cosine is
  negative: the normal draw is \<open>-Infinity\<close>.
\<close>

lemma SeededRNG_random_after_zero:
  assumes "fst (SeededRNG_random r) = 0"
  shows "fst (SeededRNG_random (snd (SeededRNG_random r))) = 1144304738 / 4294967296"
proof -
  have z: "(word_of_int (state r + 1831565813) :: 32 word) = 0"
    using assms by (simp only: SeededRNG_random_zero_word)
  have "(word_of_int (state r + 1831565813 + 1831565813) :: 32 word)
      = word_of_int (state r + 1831565813) + word_of_int 1831565813"
    by (simp only: word_of_int_hom_syms)
  then have w: "(word_of_int (state r + 1831565813 + 1831565813) :: 32 word) = 1831565813"
    by (simp only: z) simp
  have s: "state (snd (SeededRNG_random r)) = state r + 1831565813"
    by (simp add: SeededRNG_random_def Let_def)
  show ?thesis
    unfolding SeededRNG_random_def [of "snd (SeededRNG_random r)"] Let_def fst_conv s w
    by simp
qed

lemma cos_after_zero: "cos (2 * pi * (1144304738 / 4294967296)) < 0"
proof -
  define x :: real where "x = 2 * pi * (1144304738 / 4294967296) - pi"
  have "- (pi / 2) < x" "x < pi / 2"
    using pi_gt_zero by (simp_all add: x_def field_simps)
  then have "0 < cos x" by (rule cos_gt_zero_pi)
  moreover have "cos x = - cos (2 * pi * (1144304738 / 4294967296))"
    unfolding x_def by (rule cos_minus_pi)
  ultimately show ?thesis by simp
qed

lemma SeededRNG_randomNormal_NegInfinity:
  assumes "fst (SeededRNG_random r) = 0"
  shows "SeededRNG_randomNormal 0 1 r
     = (NegInfinity, snd (SeededRNG_random (snd (SeededRNG_random r))))"
  using assms cos_after_zero
  by (simp add: SeededRNG_randomNormal_def Let_def split_beta SeededRNG_random_after_zero)

lemma generateTick_zero_dt:
  assumes "fst (SeededRNG_random r) = 0"
  shows "generateTick 0 now r ps = NotFinite"
  by (simp add: generateTick_def Let_def SeededRNG_randomNormal_NegInfinity [OF assms])


lemma zero_draw:
  "fst (SeededRNG_random (SeededRNG_new 2463401483)) = 0"
  by (simp add: SeededRNG_random_zero_iff SeededRNG_new_def)


section \<open>Runs that differ in their clock readings\<close>

lemma erase_candle_idem [simp]: "erase_candle (erase_candle c) = erase_candle c"
  by (simp add: erase_candle_def)

lemma trueRange_erase [simp]:
  "trueRange (erase_candle a) (erase_candle b) = trueRange a b"
  by (simp add: trueRange_def erase_candle_def)

lemma atr_loop_map_erase:
  assumes "lb \<le> length cs"
  shows "atr_loop (map erase_candle cs) lb (Suc 0) [] = atr_loop cs lb (Suc 0) []"
proof -
  have "trueRange (map erase_candle cs ! (length cs - lb + j - 1))
          (map erase_candle cs ! (length cs - lb + j))
      = trueRange (cs ! (length cs - lb + j - 1)) (cs ! (length cs - lb + j))"
    if "j \<in> set [Suc 0..<lb]" for j
  proof -
    from that assms have "length cs - lb + j - 1 < length cs" "length cs - lb + j < length cs"
      by auto
    then show ?thesis by simp
  qed
  then show ?thesis
    by (simp add: atr_loop_eq cong: map_cong)
qed

lemma calculateATR_map_erase: "calculateATR (map erase_candle cs) N = calculateATR cs N"
  by (simp add: calculateATR_def Let_def atr_loop_map_erase)

lemma erase_candle_simps [simp]:
  "erase_candle \<lparr>open_c = a, high = b, low = c, close = d, timestamp_c = t\<rparr>
     = \<lparr>open_c = a, high = b, low = c, close = d, timestamp_c = 0\<rparr>"
  "erase_candle (x\<lparr>high := b, low := c, close := d\<rparr>)
     = (erase_candle x)\<lparr>high := b, low := c, close := d\<rparr>"
  "high (erase_candle x) = high x" "low (erase_candle x) = low x"
  "close (erase_candle x) = close x"
  by (simp_all add: erase_candle_def)

lemma updateCandle_erase:
  "map_option erase_ps (updateCandle p now ps)
     = map_option erase_ps
         (updateCandle p (canonical_now (rollover (candleStartTime ps) now)) (erase_ps ps))"
  by (cases "candleStartTime ps"; cases "currentCandle ps")
    (auto simp: updateCandle_def erase_ps_def rollover_def canonical_now_def
      TRADING_CONFIG_candleDurationMs_def Let_def map_tl comp_def)

lemma updateCandle_start:
  "updateCandle p now ps = Some ps' \<Longrightarrow>
     candleStartTime ps' = (if rollover (candleStartTime ps) now then Some now else candleStartTime ps)"
  by (cases "candleStartTime ps"; cases "currentCandle ps")
    (auto simp: updateCandle_def rollover_def Let_def split: if_splits)

lemma erase_ps_fields [simp]:
  "asset_ps (erase_ps ps) = asset_ps ps" "config_ps (erase_ps ps) = config_ps ps"
  "currentPrice (erase_ps ps) = currentPrice ps"
  "volatilityRegime (erase_ps ps) = volatilityRegime ps" "drift (erase_ps ps) = drift ps"
  "candles (erase_ps ps) = map erase_candle (candles ps)"
  "erase_ps (ps\<lparr>currentPrice := p\<rparr>) = (erase_ps ps)\<lparr>currentPrice := p\<rparr>"
  by (simp_all add: erase_ps_def)

lemma generateTick_erase:
  "map_outcome (\<lambda>(p, r', ps'). (p, r', erase_ps ps')) (\<lambda>(r', ps'). (r', erase_ps ps'))
       (generateTick dt now r ps)
     = map_outcome (\<lambda>(p, r', ps'). (p, r', erase_ps ps')) (\<lambda>(r', ps'). (r', erase_ps ps'))
         (generateTick dt (canonical_now (rollover (candleStartTime ps) now)) r (erase_ps ps))"
proof -
  define r' where "r' = snd (SeededRNG_randomNormal 0 1 r)"
  define P where "P = (if dt < 0 then NaN
      else Math_max (number_plus (Num (currentPrice ps))
             (number_plus (Num (drift ps * currentPrice ps * dt))
                (number_times (Num (baseVol (asset_ps ps)
                     * VOLATILITY_REGIMES_factor (volatilityRegime ps) * currentPrice ps * sqrt dt))
                   (fst (SeededRNG_randomNormal 0 1 r)))))
             (Num (tickSize (config_ps ps))))"
  have g: "generateTick dt t r q
      = (case P of
           Num p \<Rightarrow> (case updateCandle p t (q\<lparr>currentPrice := p\<rparr>) of
                       None \<Rightarrow> Throws (r', q\<lparr>currentPrice := p\<rparr>)
                     | Some ps' \<Rightarrow> Returns (p, r', ps'))
         | PosInfinity \<Rightarrow> NotFinite | NegInfinity \<Rightarrow> NotFinite | NaN \<Rightarrow> NotFinite)"
    if "asset_ps q = asset_ps ps" "config_ps q = config_ps ps" "currentPrice q = currentPrice ps"
      "volatilityRegime q = volatilityRegime ps" "drift q = drift ps" for t q
    unfolding P_def r'_def using that by (simp add: generateTick_def Let_def split_beta)
  show ?thesis
  proof (cases P)
    case (Num p)
    have u: "map_option erase_ps (updateCandle p now (ps\<lparr>currentPrice := p\<rparr>))
        = map_option erase_ps (updateCandle p (canonical_now (rollover (candleStartTime ps) now))
            ((erase_ps ps)\<lparr>currentPrice := p\<rparr>))"
      using updateCandle_erase [of p now "ps\<lparr>currentPrice := p\<rparr>"] by simp
    have i: "erase_ps (erase_ps ps) = erase_ps ps"
      by (simp add: erase_ps_def comp_def option.map_comp)
    show ?thesis
      using u
      by (cases "updateCandle p now (ps\<lparr>currentPrice := p\<rparr>)";
          cases "updateCandle p (canonical_now (rollover (candleStartTime ps) now))
                   ((erase_ps ps)\<lparr>currentPrice := p\<rparr>)")
        (simp_all add: g Num i)
  qed (simp_all add: g)
qed

lemma generateTick_start:
  assumes "generateTick dt now r ps = Returns (p, r', ps')
      \<or> generateTick dt now r ps = Throws (r', ps')"
  shows "candleStartTime ps'
     = (if rollover (candleStartTime ps) now then Some now else candleStartTime ps)"
proof -
  have "candleStartTime q = candleStartTime ps \<and> \<not> rollover (candleStartTime ps) now"
    if "updateCandle x now (ps\<lparr>currentPrice := x\<rparr>) = None" "q = ps\<lparr>currentPrice := x\<rparr>" for x q
    using that
    by (auto simp: updateCandle_def rollover_def Let_def split: if_splits option.splits)
  then show ?thesis
    using assms updateCandle_start [of _ now "ps\<lparr>currentPrice := _\<rparr>" ps']
    by (auto simp: generateTick_def Let_def split_beta
        split: option.splits if_splits number.splits)
qed

lemma erase_te_fields [simp]:
  "balance (erase_te s) = balance s" "initialBalance (erase_te s) = initialBalance s"
  "leverage (erase_te s) = leverage s" "longPosition (erase_te s) = longPosition s"
  "shortPosition (erase_te s) = shortPosition s" "realizedPnL (erase_te s) = realizedPnL s"
  "length (trades (erase_te s)) = length (trades s)"
  "length (collapses (erase_te s)) = length (collapses s)"
  by (simp_all add: erase_te_def)

lemma erase_te_reads [simp]:
  "calculateMargin (erase_te s) sz p = calculateMargin s sz p"
  "calculateOrderSize (erase_te s) p = calculateOrderSize s p"
  "shouldCollapse (erase_te s) = shouldCollapse s"
  "calculateUnrealizedPnL (erase_te s) p = calculateUnrealizedPnL s p"
  "calculateEquity (erase_te s) p = calculateEquity s p"
  by (simp_all add: calculateMargin_def calculateOrderSize_def shouldCollapse_def
      calculateUnrealizedPnL_def calculateEquity_def)

lemma executeEntry_erase:
  "erase_te (snd (executeEntry sd p sz ts s)) = erase_te (snd (executeEntry sd p sz 0 (erase_te s)))"
  by (cases sd) (simp_all add: executeEntry_def Let_def erase_te_def map_butlast calculateMargin_def comp_def)

lemma executeCollapse_erase:
  "erase_te (snd (executeCollapse ts s)) = erase_te (snd (executeCollapse 0 (erase_te s)))"
  by (simp add: executeCollapse_def Let_def erase_te_def calculateMargin_def comp_def)

lemma erase_ps_idem [simp]: "erase_ps (erase_ps ps) = erase_ps ps"
  by (simp add: erase_ps_def comp_def option.map_comp)

lemma erase_te_idem [simp]: "erase_te (erase_te s) = erase_te s"
  by (simp add: erase_te_def comp_def)

lemma erase_dp_simps [simp]:
  "erase_dp (erase_dp d) = erase_dp d"
  "erase_dp \<lparr>dp_timestamp = ts, dp_tick = n, dp_mid = a, dp_bid = b, dp_ask = c, dp_spread = d1,
     dp_atr = d2, dp_balance = d3, dp_equity = d4, dp_unrealizedPnL = d5, dp_realizedPnL = d6,
     dp_longSize = d7, dp_shortSize = d8\<rparr>
   = \<lparr>dp_timestamp = 0, dp_tick = n, dp_mid = a, dp_bid = b, dp_ask = c, dp_spread = d1,
     dp_atr = d2, dp_balance = d3, dp_equity = d4, dp_unrealizedPnL = d5, dp_realizedPnL = d6,
     dp_longSize = d7, dp_shortSize = d8\<rparr>"
  by (simp_all add: erase_dp_def)

lemma erase_engine_idem [simp]: "erase_engine (erase_engine e) = erase_engine e"
  by (simp add: erase_engine_def comp_def option.map_comp)

lemma erase_engine_fields [simp]:
  "rng (erase_engine e) = rng e" "asset_e (erase_engine e) = asset_e e"
  "config_e (erase_engine e) = config_e e" "isRunning (erase_engine e) = isRunning e"
  "tickCount (erase_engine e) = tickCount e" "atrLength (erase_engine e) = atrLength e"
  "currentMid (erase_engine e) = currentMid e" "currentQuotes (erase_engine e) = currentQuotes e"
  "currentATR (erase_engine e) = currentATR e"
  "tradingEngine (erase_engine e) = erase_te (tradingEngine e)"
  "priceSimulator (erase_engine e) = map_option erase_ps (priceSimulator e)"
  "dataHistory (erase_engine e) = map erase_dp (dataHistory e)"
  by (simp_all add: erase_engine_def)

lemma erase_engine_callbacks [simp]:
  "onTick (erase_engine e) = onTick e" "onTrade (erase_engine e) = onTrade e"
  "onCollapse (erase_engine e) = onCollapse e"
  by (simp_all add: erase_engine_def)

lemma erase_engine_updates [simp]:
  "erase_engine (e\<lparr>rng := r\<rparr>) = (erase_engine e)\<lparr>rng := r\<rparr>"
  "erase_engine (e\<lparr>tradingEngine := s\<rparr>) = (erase_engine e)\<lparr>tradingEngine := erase_te s\<rparr>"
  "erase_engine (e\<lparr>currentATR := a\<rparr>) = (erase_engine e)\<lparr>currentATR := a\<rparr>"
  "erase_engine (e\<lparr>currentQuotes := q\<rparr>) = (erase_engine e)\<lparr>currentQuotes := q\<rparr>"
  "erase_engine (e\<lparr>dataHistory := h\<rparr>) = (erase_engine e)\<lparr>dataHistory := map erase_dp h\<rparr>"
  by (simp_all add: erase_engine_def)

lemma simulateMarketActivity_erase:
  "erase_engine (snd (simulateMarketActivity ts e))
     = erase_engine (snd (simulateMarketActivity 0 (erase_engine e)))"
  using executeEntry_erase [of SHORT _ _ ts "tradingEngine e"]
    executeEntry_erase [of LONG _ _ ts "tradingEngine e"]
  by (simp add: simulateMarketActivity_def Let_def split_beta)

lemma tick_atr_erase: "erase_engine (tick_atr e) = erase_engine (tick_atr (erase_engine e))"
  by (cases "priceSimulator e") (simp_all add: tick_atr_def calculateATR_map_erase)

lemma tick_collapse_erase:
  "map_outcome erase_engine erase_engine (tick_collapse ts e)
     = map_outcome erase_engine erase_engine (tick_collapse 0 (erase_engine e))"
proof -
  have "(fst (executeCollapse 0 (erase_te (tradingEngine e))) = None)
      = (fst (executeCollapse ts (tradingEngine e)) = None)"
    by (simp add: executeCollapse_def Let_def)
  with executeCollapse_erase [of ts "tradingEngine e"] show ?thesis
    by (cases "fst (executeCollapse ts (tradingEngine e))";
        cases "fst (executeCollapse 0 (erase_te (tradingEngine e)))"; cases "onCollapse e")
      (simp_all add: tick_collapse_def split_beta Let_def)
qed

lemma fill_divides_by_zero_erase [simp]:
  "fill_divides_by_zero (erase_engine e) = fill_divides_by_zero e"
  by (simp add: fill_divides_by_zero_def Let_def split_beta)

lemma tick_fill_erase:
  "map_outcome erase_engine erase_engine (tick_fill ts e)
     = map_outcome erase_engine erase_engine (tick_fill 0 (erase_engine e))"
  using simulateMarketActivity_erase [of ts e] by (simp add: tick_fill_def)

lemma tick_quotes_erase: "erase_engine (tick_quotes e) = erase_engine (tick_quotes (erase_engine e))"
  by (simp add: tick_quotes_def)

lemma tick_record_erase:
  "erase_engine (tick_record ts e) = erase_engine (tick_record 0 (erase_engine e))"
  by (simp add: tick_record_def Let_def map_tl comp_def)

lemma tick_price_erase:
  "map_outcome erase_engine erase_engine (tick_price now e)
     = map_outcome erase_engine erase_engine
         (tick_price (canonical_now (rollover (candleStart e) now)) (erase_engine e))"
proof (cases "priceSimulator e")
  case None
  then show ?thesis by (simp add: tick_price_def erase_engine_def)
next
  case (Some ps)
  define f where "f = (\<lambda>(x :: simulation_engine) (y :: real \<times> seeded_rng \<times> price_simulator).
    x\<lparr>tickCount := tickCount x + 1, currentMid := fst y, rng := fst (snd y),
      priceSimulator := Some (snd (snd y))\<rparr>)"
  define h where "h = (\<lambda>(x :: simulation_engine) (y :: seeded_rng \<times> price_simulator).
    x\<lparr>tickCount := tickCount x + 1, rng := fst y, priceSimulator := Some (snd y)\<rparr>)"
  define E where "E = (\<lambda>(p :: real, r' :: seeded_rng, ps'). (p, r', erase_ps ps'))"
  define F where "F = (\<lambda>(r' :: seeded_rng, ps'). (r', erase_ps ps'))"
  have t: "tick_price t x = map_outcome (f x) (h x) (generateTick (1.5 / 86400) t (rng x) q)"
    if "priceSimulator x = Some q" for t x q
    using that by (simp add: tick_price_def f_def h_def Let_def split: outcome.splits)
  have c: "erase_engine (f e y) = f (erase_engine e) (E y)"
    "erase_engine (f (erase_engine e) y) = f (erase_engine e) (E y)" for y
    by (simp_all add: f_def E_def erase_engine_def split_beta comp_def option.map_comp)
  have c': "erase_engine (h e y) = h (erase_engine e) (F y)"
    "erase_engine (h (erase_engine e) y) = h (erase_engine e) (F y)" for y
    by (simp_all add: h_def F_def erase_engine_def split_beta comp_def option.map_comp)
  have g: "map_outcome E F (generateTick (1.5 / 86400) now (rng e) ps)
      = map_outcome E F (generateTick (1.5 / 86400)
          (canonical_now (rollover (candleStart e) now)) (rng e) (erase_ps ps))"
    using generateTick_erase [of "1.5 / 86400" now "rng e" ps] Some
    by (simp add: E_def F_def candleStart_def)
  have L: "map_outcome erase_engine erase_engine (tick_price now e)
      = map_outcome (f (erase_engine e)) (h (erase_engine e))
          (map_outcome E F (generateTick (1.5 / 86400) now (rng e) ps))"
    by (simp add: t [OF Some] outcome.map_comp comp_def c c')
  have R: "map_outcome erase_engine erase_engine
        (tick_price (canonical_now (rollover (candleStart e) now)) (erase_engine e))
      = map_outcome (f (erase_engine e)) (h (erase_engine e))
          (map_outcome E F (generateTick (1.5 / 86400)
             (canonical_now (rollover (candleStart e) now)) (rng e) (erase_ps ps)))"
    using Some
    by (simp add: t [of "erase_engine e" "erase_ps ps"] outcome.map_comp comp_def c c')
  show ?thesis
    by (simp only: L R g)
qed

lemma tick_price_start:
  assumes "tick_price now e = Returns e1 \<or> tick_price now e = Throws e1"
    and "priceSimulator e \<noteq> None"
  shows "candleStart e1 = (if rollover (candleStart e) now then Some now else candleStart e)
     \<and> isRunning e1 = isRunning e \<and> priceSimulator e1 \<noteq> None"
proof -
  from assms(2) obtain ps where ps: "priceSimulator e = Some ps" by auto
  show ?thesis
  proof (cases "generateTick (1.5 / 86400) now (rng e) ps")
    case (Returns y)
    obtain p r' ps' where y: "y = (p, r', ps')" by (cases y)
    from generateTick_start [of "1.5 / 86400" now "rng e" ps p r' ps'] Returns assms(1)
    show ?thesis
      by (auto simp: tick_price_def candleStart_def ps y Let_def)
  next
    case (Throws y)
    obtain r' ps' where y: "y = (r', ps')" by (cases y)
    from generateTick_start [of "1.5 / 86400" now "rng e" ps _ r' ps'] Throws assms(1)
    show ?thesis
      by (auto simp: tick_price_def candleStart_def ps y Let_def)
  next
    case NotFinite
    with assms(1) show ?thesis by (simp add: tick_price_def ps)
  qed
qed

lemma outcome_cong:
  assumes "map_outcome E E x = map_outcome E E y"
    and "\<And>a b. E a = E b \<Longrightarrow> map_outcome E E (f a) = map_outcome E E (g b)"
  shows "map_outcome E E (case x of Returns a \<Rightarrow> f a | Throws s \<Rightarrow> Throws s
                           | NotFinite \<Rightarrow> NotFinite)
       = map_outcome E E (case y of Returns b \<Rightarrow> g b | Throws s \<Rightarrow> Throws s
                           | NotFinite \<Rightarrow> NotFinite)"
  using assms by (cases x; cases y) auto

lemma tick_price_cong:
  assumes "erase_engine a = erase_engine b"
    and "rollover (candleStart a) now = rollover (candleStart b) now'"
  shows "map_outcome erase_engine erase_engine (tick_price now a)
       = map_outcome erase_engine erase_engine (tick_price now' b)"
  using assms tick_price_erase [of now a] tick_price_erase [of now' b] by simp

lemma tick_atr_cong:
  "erase_engine a = erase_engine b \<Longrightarrow> erase_engine (tick_atr a) = erase_engine (tick_atr b)"
  using tick_atr_erase [of a] tick_atr_erase [of b] by simp

lemma tick_collapse_cong:
  "erase_engine a = erase_engine b \<Longrightarrow>
     map_outcome erase_engine erase_engine (tick_collapse ts a)
       = map_outcome erase_engine erase_engine (tick_collapse ts' b)"
  using tick_collapse_erase [of ts a] tick_collapse_erase [of ts' b] by simp

lemma tick_quotes_cong:
  "erase_engine a = erase_engine b \<Longrightarrow> erase_engine (tick_quotes a) = erase_engine (tick_quotes b)"
  using tick_quotes_erase [of a] tick_quotes_erase [of b] by simp

lemma tick_fill_cong:
  "erase_engine a = erase_engine b \<Longrightarrow>
     map_outcome erase_engine erase_engine (tick_fill ts a)
       = map_outcome erase_engine erase_engine (tick_fill ts' b)"
  using tick_fill_erase [of ts a] tick_fill_erase [of ts' b] by simp

lemma tick_record_cong:
  "erase_engine a = erase_engine b \<Longrightarrow>
     erase_engine (tick_record ts a) = erase_engine (tick_record ts' b)"
  using tick_record_erase [of ts a] tick_record_erase [of ts' b] by simp

lemma tick_cong:
  assumes "erase_engine a = erase_engine b"
    and "rollover (candleStart a) now = rollover (candleStart b) now'"
  shows "map_outcome erase_engine erase_engine (tick ts now a)
       = map_outcome erase_engine erase_engine (tick ts' now' b)"
proof -
  have r: "isRunning a = isRunning b"
    using arg_cong [OF assms(1), of isRunning] by simp
  show ?thesis
  proof (cases "isRunning a")
    case False
    with r assms(1) show ?thesis by (simp add: tick_def)
  next
    case True
    have "map_outcome erase_engine erase_engine
        (case tick_price now a of
           Returns e1 \<Rightarrow>
             (case tick_collapse ts (tick_atr e1) of
                Returns e3 \<Rightarrow>
                  (case tick_fill ts (tick_quotes e3) of
                     Returns e5 \<Rightarrow> Returns (tick_record ts e5)
                   | Throws e5 \<Rightarrow> Throws e5 | NotFinite \<Rightarrow> NotFinite)
              | Throws e3 \<Rightarrow> Throws e3 | NotFinite \<Rightarrow> NotFinite)
         | Throws e1 \<Rightarrow> Throws e1 | NotFinite \<Rightarrow> NotFinite)
      = map_outcome erase_engine erase_engine
        (case tick_price now' b of
           Returns e1 \<Rightarrow>
             (case tick_collapse ts' (tick_atr e1) of
                Returns e3 \<Rightarrow>
                  (case tick_fill ts' (tick_quotes e3) of
                     Returns e5 \<Rightarrow> Returns (tick_record ts' e5)
                   | Throws e5 \<Rightarrow> Throws e5 | NotFinite \<Rightarrow> NotFinite)
              | Throws e3 \<Rightarrow> Throws e3 | NotFinite \<Rightarrow> NotFinite)
         | Throws e1 \<Rightarrow> Throws e1 | NotFinite \<Rightarrow> NotFinite)"
    proof (rule outcome_cong [OF tick_price_cong [OF assms]])
      fix a1 b1 assume "erase_engine a1 = erase_engine b1"
      then have "erase_engine (tick_atr a1) = erase_engine (tick_atr b1)"
        by (rule tick_atr_cong)
      then have c: "map_outcome erase_engine erase_engine (tick_collapse ts (tick_atr a1))
          = map_outcome erase_engine erase_engine (tick_collapse ts' (tick_atr b1))"
        by (rule tick_collapse_cong)
      show "map_outcome erase_engine erase_engine
          (case tick_collapse ts (tick_atr a1) of
                Returns e3 \<Rightarrow>
                  (case tick_fill ts (tick_quotes e3) of
                     Returns e5 \<Rightarrow> Returns (tick_record ts e5)
                   | Throws e5 \<Rightarrow> Throws e5 | NotFinite \<Rightarrow> NotFinite)
              | Throws e3 \<Rightarrow> Throws e3 | NotFinite \<Rightarrow> NotFinite)
        = map_outcome erase_engine erase_engine
          (case tick_collapse ts' (tick_atr b1) of
                Returns e3 \<Rightarrow>
                  (case tick_fill ts' (tick_quotes e3) of
                     Returns e5 \<Rightarrow> Returns (tick_record ts' e5)
                   | Throws e5 \<Rightarrow> Throws e5 | NotFinite \<Rightarrow> NotFinite)
              | Throws e3 \<Rightarrow> Throws e3 | NotFinite \<Rightarrow> NotFinite)"
      proof (rule outcome_cong [OF c])
        fix a3 b3 assume "erase_engine a3 = erase_engine b3"
        then have "erase_engine (tick_quotes a3) = erase_engine (tick_quotes b3)"
          by (rule tick_quotes_cong)
        then have f: "map_outcome erase_engine erase_engine (tick_fill ts (tick_quotes a3))
            = map_outcome erase_engine erase_engine (tick_fill ts' (tick_quotes b3))"
          by (rule tick_fill_cong)
        show "map_outcome erase_engine erase_engine
            (case tick_fill ts (tick_quotes a3) of
                     Returns e5 \<Rightarrow> Returns (tick_record ts e5)
                   | Throws e5 \<Rightarrow> Throws e5 | NotFinite \<Rightarrow> NotFinite)
          = map_outcome erase_engine erase_engine
            (case tick_fill ts' (tick_quotes b3) of
                     Returns e5 \<Rightarrow> Returns (tick_record ts' e5)
                   | Throws e5 \<Rightarrow> Throws e5 | NotFinite \<Rightarrow> NotFinite)"
        proof (rule outcome_cong [OF f])
          fix a5 b5 assume "erase_engine a5 = erase_engine b5"
          then show "map_outcome erase_engine erase_engine (Returns (tick_record ts a5))
              = map_outcome erase_engine erase_engine (Returns (tick_record ts' b5))"
            by (simp add: tick_record_cong)
        qed
      qed
    qed
    with True r show ?thesis by (simp add: tick_def)
  qed
qed

lemma simulateMarketActivity_keeps:
  "priceSimulator (snd (simulateMarketActivity ts e)) = priceSimulator e"
  "isRunning (snd (simulateMarketActivity ts e)) = isRunning e"
  by (simp_all add: simulateMarketActivity_def Let_def split_beta)

lemma tick_collapse_keeps:
  assumes "tick_collapse ts e = Returns e' \<or> tick_collapse ts e = Throws e'"
  shows "priceSimulator e' = priceSimulator e \<and> isRunning e' = isRunning e"
  using assms
  by (auto simp: tick_collapse_def Let_def split_beta
      split: if_splits option.splits callback.splits)

lemma tick_start:
  assumes "tick ts now e = Returns e' \<or> tick ts now e = Throws e'"
    and "isRunning e" and "priceSimulator e \<noteq> None"
  shows "candleStart e' = (if rollover (candleStart e) now then Some now else candleStart e)"
    and "isRunning e'" and "priceSimulator e' \<noteq> None"
proof -
  have "\<exists>e1. (tick_price now e = Returns e1 \<or> tick_price now e = Throws e1)
      \<and> priceSimulator e' = priceSimulator e1 \<and> isRunning e' = isRunning e1"
  proof (cases "tick_price now e")
    case (Returns e1)
    show ?thesis
    proof (cases "tick_collapse ts (tick_atr e1)")
      case c: (Returns e3)
      from tick_collapse_keeps [of ts "tick_atr e1" e3] c
      have k3: "priceSimulator e3 = priceSimulator e1" "isRunning e3 = isRunning e1"
        by (simp_all add: tick_atr_def)
      from assms(1,2) Returns c
      have "e' = tick_record ts (snd (simulateMarketActivity ts (tick_quotes e3)))"
        by (auto simp: tick_def tick_fill_def split: if_splits)
      then have "priceSimulator e' = priceSimulator e1" "isRunning e' = isRunning e1"
        by (simp_all add: tick_record_def Let_def simulateMarketActivity_keeps tick_quotes_def k3)
      with Returns show ?thesis by blast
    next
      case c: (Throws e3)
      from tick_collapse_keeps [of ts "tick_atr e1" e3] c
      have k3: "priceSimulator e3 = priceSimulator e1" "isRunning e3 = isRunning e1"
        by (simp_all add: tick_atr_def)
      from assms(1,2) Returns c have "e' = e3" by (simp add: tick_def)
      with k3 Returns show ?thesis by blast
    next
      case NotFinite
      with assms(1,2) Returns show ?thesis by (simp add: tick_def)
    qed
  next
    case (Throws e1)
    with assms(1,2) have "e' = e1" by (simp add: tick_def)
    with Throws show ?thesis by blast
  next
    case NotFinite
    with assms(1,2) show ?thesis by (simp add: tick_def)
  qed
  then obtain e1 where p: "tick_price now e = Returns e1 \<or> tick_price now e = Throws e1"
    and k: "priceSimulator e' = priceSimulator e1" "isRunning e' = isRunning e1"
    by blast
  from tick_price_start [OF p assms(3)] k assms(2)
  show "candleStart e' = (if rollover (candleStart e) now then Some now else candleStart e)"
    and "isRunning e'" and "priceSimulator e' \<noteq> None"
    by (simp_all add: candleStart_def)
qed

lemma length_rollovers [simp]: "length (rollovers start nows) = length nows"
  by (induction nows arbitrary: start) simp_all

lemma rollovers_take: "rollovers start (take k nows) = take k (rollovers start nows)"
proof (induction nows arbitrary: start k)
  case Nil
  then show ?case by simp
next
  case (Cons now nows)
  then show ?case by (cases k) simp_all
qed

lemma run_ticks_no_simulator:
  assumes "isRunning e" and "priceSimulator e = None"
  shows "run_ticks clock e = Some (e\<lparr>tickCount := tickCount e + length clock\<rparr>)"
  using assms
proof (induction clock arbitrary: e)
  case Nil
  then show ?case by simp
next
  case (Cons c clock)
  obtain ts now where c: "c = (ts, now)" by (cases c)
  have t: "tick ts now e = Throws (e\<lparr>tickCount := tickCount e + 1\<rparr>)"
    using Cons.prems by (simp add: tick_def tick_price_def)
  have "run_ticks clock (e\<lparr>tickCount := tickCount e + 1\<rparr>)
      = Some (e\<lparr>tickCount := tickCount e + 1 + length clock\<rparr>)"
    using Cons.IH [of "e\<lparr>tickCount := tickCount e + 1\<rparr>"] Cons.prems by simp
  then show ?case by (simp add: c t)
qed

lemma run_ticks_cong:
  assumes "erase_engine a = erase_engine b"
    and "rollovers (candleStart a) (map snd clock) = rollovers (candleStart b) (map snd clock')"
    and "isRunning a" and "priceSimulator a \<noteq> None"
  shows "map_option erase_engine (run_ticks clock a) = map_option erase_engine (run_ticks clock' b)"
  using assms
proof (induction clock arbitrary: a b clock')
  case Nil
  then show ?case by (cases clock') simp_all
next
  case (Cons c clock)
  obtain ts now where c: "c = (ts, now)" by (cases c)
  from Cons.prems(2) obtain ts' now' rest where clock': "clock' = (ts', now') # rest"
    by (cases clock') (auto simp: c)
  from Cons.prems(2) have d: "rollover (candleStart a) now = rollover (candleStart b) now'"
    and rest: "rollovers (if rollover (candleStart a) now then Some now else candleStart a)
                 (map snd clock)
             = rollovers (if rollover (candleStart b) now' then Some now' else candleStart b)
                 (map snd rest)"
    by (auto simp: c clock')
  have rb: "isRunning b"
    using arg_cong [OF Cons.prems(1), of isRunning] Cons.prems(3) by simp
  have pb: "priceSimulator b \<noteq> None"
    using arg_cong [OF Cons.prems(1), of priceSimulator] Cons.prems(4)
    by (cases "priceSimulator b") auto
  from tick_cong [OF Cons.prems(1) d, of ts ts']
  consider "tick ts now a = NotFinite" "tick ts' now' b = NotFinite"
    | a1 b1 where "tick ts now a = Returns a1" "tick ts' now' b = Returns b1"
      "erase_engine a1 = erase_engine b1"
    | a1 b1 where "tick ts now a = Throws a1" "tick ts' now' b = Throws b1"
      "erase_engine a1 = erase_engine b1"
    by (cases "tick ts now a"; cases "tick ts' now' b") auto
  then show ?case
  proof cases
    case 1
    then show ?thesis by (simp add: c clock')
  next
    case 2
    have "map_option erase_engine (run_ticks clock a1)
        = map_option erase_engine (run_ticks rest b1)"
    proof (rule Cons.IH [OF 2(3)])
      show "rollovers (candleStart a1) (map snd clock) = rollovers (candleStart b1) (map snd rest)"
        using rest tick_start(1) [OF disjI1 [OF 2(1)] Cons.prems(3,4)]
          tick_start(1) [OF disjI1 [OF 2(2)] rb pb] by simp
      show "isRunning a1" by (rule tick_start(2) [OF disjI1 [OF 2(1)] Cons.prems(3,4)])
      show "priceSimulator a1 \<noteq> None"
        by (rule tick_start(3) [OF disjI1 [OF 2(1)] Cons.prems(3,4)])
    qed
    with 2 show ?thesis by (simp add: c clock')
  next
    case 3
    have "map_option erase_engine (run_ticks clock a1)
        = map_option erase_engine (run_ticks rest b1)"
    proof (rule Cons.IH [OF 3(3)])
      show "rollovers (candleStart a1) (map snd clock) = rollovers (candleStart b1) (map snd rest)"
        using rest tick_start(1) [OF disjI2 [OF 3(1)] Cons.prems(3,4)]
          tick_start(1) [OF disjI2 [OF 3(2)] rb pb] by simp
      show "isRunning a1" by (rule tick_start(2) [OF disjI2 [OF 3(1)] Cons.prems(3,4)])
      show "priceSimulator a1 \<noteq> None"
        by (rule tick_start(3) [OF disjI2 [OF 3(1)] Cons.prems(3,4)])
    qed
    with 3 show ?thesis by (simp add: c clock')
  qed
qed

lemma run_ticks_not_running: "\<not> isRunning e \<Longrightarrow> run_ticks clock e = Some e"
  by (induction clock) (auto simp: tick_def)


lemma tick_timestamp:
  assumes "tick ts now e = Returns e'" and "isRunning e"
  shows "dataHistory e' \<noteq> [] \<and> dp_timestamp (last (dataHistory e')) = ts"
proof -
  from assms obtain x where e': "e' = tick_record ts x"
    by (auto simp: tick_def split: outcome.splits)
  have "last (tl (xs @ [d])) = d \<and> tl (xs @ [d]) \<noteq> []" if "length (xs @ [d]) > 1000"
    for xs :: "data_point list" and d
    using that by (cases xs) auto
  then show ?thesis
    by (simp add: e' tick_record_def Let_def del: length_append)
qed

lemma generateTick_props:
  assumes "generateTick dt now r ps = Returns (p, r', ps')"
  shows "asset_ps ps' = asset_ps ps \<and> config_ps ps' = config_ps ps
    \<and> volatilityRegime ps' = volatilityRegime ps \<and> drift ps' = drift ps
    \<and> currentPrice ps' = p
    \<and> candleStartTime ps' = (if rollover (candleStartTime ps) now then Some now
                              else candleStartTime ps)
    \<and> (rollover (candleStartTime ps) now \<longrightarrow>
          candles ps' = (case currentCandle ps of None \<Rightarrow> candles ps
                         | Some c \<Rightarrow> if length (candles ps @ [c]) > 50
                                     then tl (candles ps @ [c]) else candles ps @ [c])
          \<and> currentCandle ps' = Some \<lparr>open_c = p, high = p, low = p, close = p,
                                        timestamp_c = now\<rparr>)
    \<and> (\<not> rollover (candleStartTime ps) now \<longrightarrow>
          candles ps' = candles ps \<and> currentCandle ps' \<noteq> None)"
proof -
  from assms have u: "updateCandle p now (ps\<lparr>currentPrice := p\<rparr>) = Some ps'"
    by (auto simp: generateTick_def Let_def split_beta
        split: option.splits if_splits number.splits)
  then show ?thesis
    by (cases "candleStartTime ps"; cases "currentCandle ps")
      (auto simp: updateCandle_def rollover_def Let_def split: option.splits if_splits)
qed

lemma fill_divides_by_zero_quiet:
  "fst (SeededRNG_random (rng e)) > 0.25 \<Longrightarrow> \<not> fill_divides_by_zero e"
  by (simp add: fill_divides_by_zero_def Let_def split_beta)

lemma tick_quiet:
  assumes "isRunning e" and "priceSimulator e = Some ps"
    and "generateTick (1.5 / 86400) now (rng e) ps = Returns (mid, r1, ps1)"
    and "\<not> shouldCollapse (tradingEngine e)"
    and "fst (SeededRNG_random r1) > 0.25"
  shows "\<exists>e'. tick ts now e = Returns e' \<and> isRunning e' \<and> priceSimulator e' = Some ps1
    \<and> rng e' = snd (SeededRNG_random r1) \<and> tradingEngine e' = tradingEngine e
    \<and> atrLength e' = atrLength e \<and> dataHistory e' \<noteq> []
    \<and> dp_atr (last (dataHistory e')) = calculateATR (candles ps1) (atrLength e)"
proof -
  define e1 where "e1 = e\<lparr>tickCount := tickCount e + 1, currentMid := mid, rng := r1,
                        priceSimulator := Some ps1\<rparr>"
  define e4 where "e4 = tick_quotes (tick_atr e1)"
  define e5 where "e5 = snd (simulateMarketActivity ts e4)"
  have p: "tick_price now e = Returns e1"
    using assms(2,3) by (simp add: tick_price_def e1_def)
  have c: "tick_collapse ts (tick_atr e1) = Returns (tick_atr e1)"
    using assms(4) by (simp add: tick_collapse_def tick_atr_def e1_def)
  have e4: "rng e4 = r1" "isRunning e4 = isRunning e" "priceSimulator e4 = Some ps1"
    "tradingEngine e4 = tradingEngine e" "atrLength e4 = atrLength e"
    "currentATR e4 = calculateATR (candles ps1) (atrLength e)"
    by (simp_all add: e4_def tick_quotes_def tick_atr_def e1_def)
  have f: "tick_fill ts e4 = Returns e5"
    using fill_divides_by_zero_quiet [of e4] assms(5) by (simp add: tick_fill_def e5_def e4(1))
  have e5: "e5 = e4\<lparr>rng := snd (SeededRNG_random r1)\<rparr>"
    using assms(5) by (simp add: e5_def simulateMarketActivity_def Let_def split_beta e4(1))
  have t: "tick ts now e = Returns (tick_record ts e5)"
    using assms(1) p c f by (simp add: tick_def e4_def)
  have l: "last (tl (xs @ [d])) = d \<and> tl (xs @ [d]) \<noteq> []" if "length (xs @ [d]) > 1000"
    for xs :: "data_point list" and d
    using that by (cases xs) auto
  have "dataHistory (tick_record ts e5) \<noteq> []
      \<and> dp_atr (last (dataHistory (tick_record ts e5))) = currentATR e5"
    using l by (simp add: tick_record_def Let_def del: length_append)
  then show ?thesis
    using assms(1) e4 by (simp add: t e5 tick_record_def Let_def)
qed

lemma shouldCollapse_reset: "\<not> shouldCollapse (TradingEngine_reset b)"
  by (simp add: shouldCollapse_def TradingEngine_reset_def)

lemma example_engine_tick:
  "\<exists>e'. tick ts now example_engine = Returns e'"
proof -
  have c: "candleStartTime (PriceSimulator_new BTC) \<noteq> None
      \<longrightarrow> currentCandle (PriceSimulator_new BTC) \<noteq> None"
    by (simp add: PriceSimulator_new_def)
  have d: "(0::real) \<le> 1.5 / 86400" by simp
  have f: "isRunning example_engine"
    "priceSimulator example_engine = Some (PriceSimulator_new BTC)"
    "rng example_engine = SeededRNG_new 12345"
    "tradingEngine example_engine = TradingEngine_reset TRADING_CONFIG_defaultBalance"
    by (simp_all add: example_engine_def setAsset_def SimulationEngine_new_def)
  from generateTick_result [OF example_normal d c, of now]
  obtain y ps' where "generateTick (1.5 / 86400) now (rng example_engine) (PriceSimulator_new BTC)
       = Returns (y, \<lparr>seed = 12345, state = 3663143971\<rparr>, ps')"
    unfolding f by blast
  from tick_quiet [OF f(1,2) this, of ts] show ?thesis
    by (auto simp: f(4) shouldCollapse_reset example_draws)
qed

lemma generateTick_price:
  assumes "generateTick dt now r ps = Returns (p, r', ps')"
    and "SeededRNG_randomNormal 0 1 r = (Num z, r'')" and "0 \<le> dt"
  shows "tickSize (config_ps ps) \<le> p"
    and "0 < z \<Longrightarrow> 0 < dt \<Longrightarrow> drift ps = 0 \<Longrightarrow> 0 < currentPrice ps \<Longrightarrow> currentPrice ps < p"
proof -
  have v: "0 < baseVol (asset_ps ps) * VOLATILITY_REGIMES_factor (volatilityRegime ps)"
    by (rule volatility_positive)
  have p: "p = max (currentPrice ps + drift ps * currentPrice ps * dt
      + baseVol (asset_ps ps) * VOLATILITY_REGIMES_factor (volatilityRegime ps) * currentPrice ps
        * sqrt dt * z) (tickSize (config_ps ps))"
    using assms(1) unfolding generateTick_Num [OF assms(2,3)] Let_def
    by (auto split: option.splits)
  show "tickSize (config_ps ps) \<le> p" by (simp add: p)
  show "currentPrice ps < p" if "0 < z" "0 < dt" "drift ps = 0" "0 < currentPrice ps"
  proof -
    have "0 < baseVol (asset_ps ps) * VOLATILITY_REGIMES_factor (volatilityRegime ps)
        * currentPrice ps * sqrt dt * z"
      using v that by simp
    then show ?thesis by (simp add: p that(3) less_max_iff_disj)
  qed
qed

lemma box_muller_positive:
  fixes u u' :: real
  assumes "0 < u" and "u < 1" and "0 \<le> u'" and "u' < 1 / 4"
  shows "0 < sqrt (- 2 * ln u) * cos (2 * pi * u')"
proof -
  have "ln u < 0" using assms(1,2) by simp
  then have s: "0 < sqrt (- 2 * ln u)" by simp
  define x where "x = pi * u'"
  have "0 \<le> x" unfolding x_def using assms(3) pi_ge_zero by (rule mult_nonneg_nonneg [rotated])
  moreover have "x < pi * (1 / 4)"
    unfolding x_def using assms(4) pi_gt_zero by (rule mult_strict_left_mono)
  ultimately have "- (pi / 2) < 2 * x" "2 * x < pi / 2"
    using pi_gt_zero by linarith+
  then have "0 < cos (2 * x)" by (rule cos_gt_zero_pi)
  moreover have "2 * x = 2 * pi * u'" by (simp add: x_def)
  ultimately have "0 < cos (2 * pi * u')" by simp
  with s show ?thesis by (rule mult_pos_pos)
qed

lemma draws42:
  "fst (SeededRNG_random \<lparr>seed = 42, state = 42\<rparr>) = 2581720956 / 4294967296"
  "fst (SeededRNG_random (snd (SeededRNG_random \<lparr>seed = 42, state = 42\<rparr>)))
     = 1925393290 / 4294967296"
  "snd (SeededRNG_random (snd (SeededRNG_random \<lparr>seed = 42, state = 42\<rparr>)))
     = \<lparr>seed = 42, state = 3663131668\<rparr>"
  "SeededRNG_random \<lparr>seed = 42, state = 3663131668\<rparr>
     = (3661312704 / 4294967296, \<lparr>seed = 42, state = 5494697481\<rparr>)"
  "fst (SeededRNG_random \<lparr>seed = 42, state = 5494697481\<rparr>) = 2876485805 / 4294967296"
  "fst (SeededRNG_random (snd (SeededRNG_random \<lparr>seed = 42, state = 5494697481\<rparr>)))
     = 750819978 / 4294967296"
  "snd (SeededRNG_random (snd (SeededRNG_random \<lparr>seed = 42, state = 5494697481\<rparr>)))
     = \<lparr>seed = 42, state = 9157829107\<rparr>"
  "SeededRNG_random \<lparr>seed = 42, state = 9157829107\<rparr>
     = (2261697747 / 4294967296, \<lparr>seed = 42, state = 10989394920\<rparr>)"
  "fst (SeededRNG_random \<lparr>seed = 42, state = 10989394920\<rparr>) = 1173505300 / 4294967296"
  "fst (SeededRNG_random (snd (SeededRNG_random \<lparr>seed = 42, state = 10989394920\<rparr>)))
     = 2683257857 / 4294967296"
  "snd (SeededRNG_random (snd (SeededRNG_random \<lparr>seed = 42, state = 10989394920\<rparr>)))
     = \<lparr>seed = 42, state = 14652526546\<rparr>"
  "SeededRNG_random \<lparr>seed = 42, state = 14652526546\<rparr>
     = (3717185310 / 4294967296, \<lparr>seed = 42, state = 16484092359\<rparr>)"
  by (simp_all add: SeededRNG_random_def Let_def)

lemma normals42:
  "SeededRNG_randomNormal 0 1 \<lparr>seed = 42, state = 42\<rparr>
     = (Num (sqrt (- 2 * ln (2581720956 / 4294967296)) * cos (2 * pi * (1925393290 / 4294967296))),
        \<lparr>seed = 42, state = 3663131668\<rparr>)"
  "SeededRNG_randomNormal 0 1 \<lparr>seed = 42, state = 5494697481\<rparr>
     = (Num (sqrt (- 2 * ln (2876485805 / 4294967296)) * cos (2 * pi * (750819978 / 4294967296))),
        \<lparr>seed = 42, state = 9157829107\<rparr>)"
  "SeededRNG_randomNormal 0 1 \<lparr>seed = 42, state = 10989394920\<rparr>
     = (Num (sqrt (- 2 * ln (1173505300 / 4294967296)) * cos (2 * pi * (2683257857 / 4294967296))),
        \<lparr>seed = 42, state = 14652526546\<rparr>)"
  by (simp_all add: SeededRNG_randomNormal_def split_beta draws42 Let_def)

lemma engine42_fields:
  "isRunning engine42" "priceSimulator engine42 = Some (PriceSimulator_new BTC)"
  "rng engine42 = \<lparr>seed = 42, state = 42\<rparr>"
  "tradingEngine engine42 = TradingEngine_reset TRADING_CONFIG_defaultBalance"
  "atrLength engine42 = 20"
  by (simp_all add: engine42_def setSeed_def SeededRNG_setSeed_def example_engine_def setAsset_def
      SimulationEngine_new_def SeededRNG_new_def TRADING_CONFIG_atrLength_def)

lemma calculateATR_two_flat:
  "calculateATR [\<lparr>open_c = a, high = a, low = a, close = a, timestamp_c = s\<rparr>,
                 \<lparr>open_c = b, high = b, low = b, close = b, timestamp_c = t\<rparr>] 20 = \<bar>b - a\<bar>"
  by (simp add: calculateATR_def Let_def atr_loop_eq trueRange_def upt_conv_Cons)

lemma calculateATR_Nil: "calculateATR [] N = 0"
  by (simp add: calculateATR_def)

lemma atr_differs_across_runs:
  "run_ticks [(1000, 1000), (6000, 6000), (11000, 11000)] engine42 \<noteq> None
   \<and> run_ticks [(1000, 1000), (2000, 2000), (3000, 3000)] engine42 \<noteq> None
   \<and> map_option (map dp_atr \<circ> dataHistory)
         (run_ticks [(1000, 1000), (6000, 6000), (11000, 11000)] engine42)
       \<noteq> map_option (map dp_atr \<circ> dataHistory)
         (run_ticks [(1000, 1000), (2000, 2000), (3000, 3000)] engine42)"
proof -
  define ps0 where "ps0 = PriceSimulator_new BTC"
  define te where "te = TradingEngine_reset TRADING_CONFIG_defaultBalance"
  have dt: "(0::real) \<le> 1.5 / 86400" "(0::real) < 1.5 / 86400" by simp_all
  have nc: "\<not> shouldCollapse te" by (simp add: te_def shouldCollapse_reset)
  have ps0: "candleStartTime ps0 = None" "currentCandle ps0 = None" "candles ps0 = []"
    "drift ps0 = 0" "tickSize (config_ps ps0) = 1"
    by (simp_all add: ps0_def PriceSimulator_new_def)
  note e0 = engine42_fields [folded ps0_def te_def]

  \<comment> \<open>first tick, common to both runs\<close>
  obtain z1 where n1: "SeededRNG_randomNormal 0 1 (rng engine42)
      = (Num z1, \<lparr>seed = 42, state = 3663131668\<rparr>)"
    by (simp add: e0 normals42)
  from generateTick_result [OF n1 dt(1), of ps0 1000] ps0
  obtain P1 ps1 where g1: "generateTick (1.5 / 86400) 1000 (rng engine42) ps0
      = Returns (P1, \<lparr>seed = 42, state = 3663131668\<rparr>, ps1)"
    by auto
  have ps1: "candles ps1 = []"
    "currentCandle ps1 = Some \<lparr>open_c = P1, high = P1, low = P1, close = P1, timestamp_c = 1000\<rparr>"
    "candleStartTime ps1 = Some 1000" "drift ps1 = 0" "tickSize (config_ps ps1) = 1"
    "currentPrice ps1 = P1"
    using generateTick_props [OF g1] ps0 by (simp_all add: rollover_def)
  have P1: "0 < P1"
    using generateTick_price(1) [OF g1 n1 dt(1)] ps0 by simp
  from tick_quiet [OF e0(1) e0(2) g1, of 1000] nc
  obtain e1 where e1: "tick 1000 1000 engine42 = Returns e1" "isRunning e1"
    "priceSimulator e1 = Some ps1" "rng e1 = \<lparr>seed = 42, state = 5494697481\<rparr>"
    "tradingEngine e1 = te" "atrLength e1 = 20"
    by (auto simp: e0 draws42)

  \<comment> \<open>second draw of a price, the same in both runs\<close>
  define z2 where "z2 = sqrt (- 2 * ln (2876485805 / 4294967296))
      * cos (2 * pi * (750819978 / 4294967296))"
  have z2: "0 < z2"
    unfolding z2_def by (rule box_muller_positive) simp_all
  have n2: "SeededRNG_randomNormal 0 1 (rng e1) = (Num z2, \<lparr>seed = 42, state = 9157829107\<rparr>)"
    by (simp add: e1 normals42 z2_def)
  have c1: "candleStartTime ps1 \<noteq> None \<longrightarrow> currentCandle ps1 \<noteq> None"
    by (simp add: ps1)

  \<comment> \<open>run A: the candle is closed at each tick\<close>
  from generateTick_result [OF n2 dt(1) c1, of 6000]
  obtain P2 ps2 where g2: "generateTick (1.5 / 86400) 6000 (rng e1) ps1
      = Returns (P2, \<lparr>seed = 42, state = 9157829107\<rparr>, ps2)"
    by auto
  have ps2: "candles ps2 = [\<lparr>open_c = P1, high = P1, low = P1, close = P1, timestamp_c = 1000\<rparr>]"
    "currentCandle ps2 = Some \<lparr>open_c = P2, high = P2, low = P2, close = P2, timestamp_c = 6000\<rparr>"
    "candleStartTime ps2 = Some 6000"
    using generateTick_props [OF g2] ps1
    by (simp_all add: rollover_def TRADING_CONFIG_candleDurationMs_def)
  have P2: "P1 < P2"
    using generateTick_price(2) [OF g2 n2 dt(1) z2 dt(2)] ps1 P1 by simp
  from tick_quiet [OF e1(2) e1(3) g2, of 6000] nc
  obtain e2 where e2: "tick 6000 6000 e1 = Returns e2" "isRunning e2"
    "priceSimulator e2 = Some ps2" "rng e2 = \<lparr>seed = 42, state = 10989394920\<rparr>"
    "tradingEngine e2 = te" "atrLength e2 = 20"
    by (auto simp: e1 draws42)
  obtain z3 where n3: "SeededRNG_randomNormal 0 1 (rng e2)
      = (Num z3, \<lparr>seed = 42, state = 14652526546\<rparr>)"
    by (simp add: e2 normals42)
  have c2: "candleStartTime ps2 \<noteq> None \<longrightarrow> currentCandle ps2 \<noteq> None"
    by (simp add: ps2)
  from generateTick_result [OF n3 dt(1) c2, of 11000]
  obtain P3 ps3 where g3: "generateTick (1.5 / 86400) 11000 (rng e2) ps2
      = Returns (P3, \<lparr>seed = 42, state = 14652526546\<rparr>, ps3)"
    by auto
  have ps3: "candles ps3 = [\<lparr>open_c = P1, high = P1, low = P1, close = P1, timestamp_c = 1000\<rparr>,
      \<lparr>open_c = P2, high = P2, low = P2, close = P2, timestamp_c = 6000\<rparr>]"
    using generateTick_props [OF g3] ps2
    by (simp_all add: rollover_def TRADING_CONFIG_candleDurationMs_def)
  from tick_quiet [OF e2(2) e2(3) g3, of 11000] nc
  obtain e3 where e3: "tick 11000 11000 e2 = Returns e3" "dataHistory e3 \<noteq> []"
    "dp_atr (last (dataHistory e3)) = \<bar>P2 - P1\<bar>"
    by (auto simp: e2 draws42 ps3 calculateATR_two_flat)
  have A: "run_ticks [(1000, 1000), (6000, 6000), (11000, 11000)] engine42 = Some e3"
    by (simp add: e1 e2 e3)

  \<comment> \<open>run B: all three ticks fall into the first candle\<close>
  from generateTick_result [OF n2 dt(1) c1, of 2000]
  obtain Q2 qs2 where h2: "generateTick (1.5 / 86400) 2000 (rng e1) ps1
      = Returns (Q2, \<lparr>seed = 42, state = 9157829107\<rparr>, qs2)"
    by auto
  have qs2: "candles qs2 = []" "currentCandle qs2 \<noteq> None" "candleStartTime qs2 = Some 1000"
    using generateTick_props [OF h2] ps1
    by (simp_all add: rollover_def TRADING_CONFIG_candleDurationMs_def)
  from tick_quiet [OF e1(2) e1(3) h2, of 2000] nc
  obtain f2 where f2: "tick 2000 2000 e1 = Returns f2" "isRunning f2"
    "priceSimulator f2 = Some qs2" "rng f2 = \<lparr>seed = 42, state = 10989394920\<rparr>"
    "tradingEngine f2 = te" "atrLength f2 = 20"
    by (auto simp: e1 draws42)
  have m3: "SeededRNG_randomNormal 0 1 (rng f2) = (Num z3, \<lparr>seed = 42, state = 14652526546\<rparr>)"
    using n3 by (simp add: e2 f2)
  have d2: "candleStartTime qs2 \<noteq> None \<longrightarrow> currentCandle qs2 \<noteq> None"
    by (simp add: qs2)
  from generateTick_result [OF m3 dt(1) d2, of 3000]
  obtain Q3 qs3 where h3: "generateTick (1.5 / 86400) 3000 (rng f2) qs2
      = Returns (Q3, \<lparr>seed = 42, state = 14652526546\<rparr>, qs3)"
    by auto
  have qs3: "candles qs3 = []"
    using generateTick_props [OF h3] qs2
    by (simp_all add: rollover_def TRADING_CONFIG_candleDurationMs_def)
  from tick_quiet [OF f2(2) f2(3) h3, of 3000] nc
  obtain f3 where f3: "tick 3000 3000 f2 = Returns f3" "dataHistory f3 \<noteq> []"
    "dp_atr (last (dataHistory f3)) = 0"
    by (auto simp: f2 draws42 qs3 calculateATR_Nil)
  have B: "run_ticks [(1000, 1000), (2000, 2000), (3000, 3000)] engine42 = Some f3"
    by (simp add: e1 f2 f3)

  have "last (map dp_atr (dataHistory e3)) \<noteq> last (map dp_atr (dataHistory f3))"
    using e3 f3 P2 by (simp add: last_map)
  then have "map dp_atr (dataHistory e3) \<noteq> map dp_atr (dataHistory f3)"
    by auto
  then show ?thesis unfolding A B by simp
qed

lemma timestamps_differ_across_runs:
  "run_ticks [(1000, 1000)] example_engine \<noteq> None
   \<and> run_ticks [(2000, 2000)] example_engine \<noteq> None
   \<and> map_option dataHistory (run_ticks [(1000, 1000)] example_engine)
       \<noteq> map_option dataHistory (run_ticks [(2000, 2000)] example_engine)"
proof -
  have r: "isRunning example_engine" by (simp add: example_engine_def)
  obtain a where a: "tick 1000 1000 example_engine = Returns a"
    using example_engine_tick [of 1000 1000] by blast
  obtain b where b: "tick 2000 2000 example_engine = Returns b"
    using example_engine_tick [of 2000 2000] by blast
  have "dp_timestamp (last (dataHistory a)) = 1000" "dp_timestamp (last (dataHistory b)) = 2000"
    using tick_timestamp [OF a r] tick_timestamp [OF b r] by simp_all
  then have "dataHistory a \<noteq> dataHistory b" by auto
  then show ?thesis by (simp add: a b)
qed

text \<open>
  C4, as stated, fails. The time stamp of a data point is the clock reading of its tick:
  the same engine (asset BTC, seed 12345), run for one tick at clock reading 1000 and at
  clock reading 2000, records different data points. The other fields depend on the
  clock as well, through the candles: the same engine (asset BTC, seed 42), run for
  three ticks 5 seconds apart and for three ticks 1 second apart, records different ATR
  values, 0 where the three ticks fall into one candle.
\<close>

theorem data_points_differ_across_runs:
  "run_ticks [(1000, 1000)] example_engine \<noteq> None
   \<and> run_ticks [(2000, 2000)] example_engine \<noteq> None
   \<and> map_option dataHistory (run_ticks [(1000, 1000)] example_engine)
       \<noteq> map_option dataHistory (run_ticks [(2000, 2000)] example_engine)
   \<and> run_ticks [(1000, 1000), (6000, 6000), (11000, 11000)] engine42 \<noteq> None
   \<and> run_ticks [(1000, 1000), (2000, 2000), (3000, 3000)] engine42 \<noteq> None
   \<and> map_option (map dp_atr \<circ> dataHistory)
         (run_ticks [(1000, 1000), (6000, 6000), (11000, 11000)] engine42)
       \<noteq> map_option (map dp_atr \<circ> dataHistory)
         (run_ticks [(1000, 1000), (2000, 2000), (3000, 3000)] engine42)"
  using timestamps_differ_across_runs atr_differs_across_runs by (simp only: simp_thms)

text \<open>
  A tick that starts with a uniform draw 0 (seed 2463401483): the price is clamped at the
  tick size 1 of BTC, the quotes are 0 and 2, a fill is drawn on the ask, and the tick
  records its data point.
\<close>

lemma zero_draw_engine_fields:
  "isRunning zero_draw_engine" "priceSimulator zero_draw_engine = Some (PriceSimulator_new BTC)"
  "rng zero_draw_engine = SeededRNG_new 2463401483"
  "tradingEngine zero_draw_engine = TradingEngine_reset TRADING_CONFIG_defaultBalance"
  "atrLength zero_draw_engine = 20" "config_e zero_draw_engine = ASSET_CONFIGS BTC"
  by (simp_all add: zero_draw_engine_def setSeed_def SeededRNG_setSeed_def example_engine_def
      setAsset_def SimulationEngine_new_def SeededRNG_new_def TRADING_CONFIG_atrLength_def)

lemma zero_draws:
  "snd (SeededRNG_random (snd (SeededRNG_random (SeededRNG_new 2463401483))))
     = \<lparr>seed = 2463401483, state = 6126533109\<rparr>"
  "SeededRNG_random \<lparr>seed = 2463401483, state = 6126533109\<rparr>
     = (1416247 / 4294967296, \<lparr>seed = 2463401483, state = 7958098922\<rparr>)"
  "SeededRNG_random \<lparr>seed = 2463401483, state = 7958098922\<rparr>
     = (958946056 / 4294967296, \<lparr>seed = 2463401483, state = 9789664735\<rparr>)"
  by (simp_all add: SeededRNG_random_def SeededRNG_new_def Let_def)

lemma zero_draw_engine_tick:
  "\<exists>e'. tick ts now zero_draw_engine = Returns e' \<and> dataHistory e' \<noteq> []
        \<and> dp_mid (last (dataHistory e')) = 1 \<and> dp_bid (last (dataHistory e')) = 0
        \<and> dp_ask (last (dataHistory e')) = 2"
proof -
  note f = zero_draw_engine_fields
  define r1 where "r1 = \<lparr>seed = 2463401483, state = 6126533109\<rparr>"
  define ps1 where "ps1 = (PriceSimulator_new BTC)
      \<lparr>currentPrice := 1, candles := [],
        currentCandle := Some \<lparr>open_c = 1, high = 1, low = 1, close = 1, timestamp_c = now\<rparr>,
        candleStartTime := Some now\<rparr>"
  define e1 where "e1 = zero_draw_engine\<lparr>tickCount := tickCount zero_draw_engine + 1,
      currentMid := 1, rng := r1, priceSimulator := Some ps1\<rparr>"
  define e4 where "e4 = tick_quotes (tick_atr e1)"
  define e5 where "e5 = snd (simulateMarketActivity ts e4)"
  have n: "SeededRNG_randomNormal 0 1 (SeededRNG_new 2463401483) = (NegInfinity, r1)"
    by (simp add: SeededRNG_randomNormal_NegInfinity [OF zero_draw] zero_draws r1_def)
  have d: "(0::real) < 1.5 / 86400" by simp
  have cp: "0 < currentPrice (PriceSimulator_new BTC)" by (simp add: PriceSimulator_new_def)
  have g: "generateTick (1.5 / 86400) now (SeededRNG_new 2463401483) (PriceSimulator_new BTC)
      = Returns (1, r1, ps1)"
    unfolding generateTick_NegInfinity [OF n d cp]
    by (simp add: Let_def updateCandle_def PriceSimulator_new_def ps1_def)
  have p: "tick_price now zero_draw_engine = Returns e1"
    using g by (simp add: tick_price_def f e1_def Let_def)
  have c: "tick_collapse ts (tick_atr e1) = Returns (tick_atr e1)"
    by (simp add: tick_collapse_def tick_atr_def e1_def f shouldCollapse_reset)
  have q: "currentQuotes e4 = \<lparr>bid = 0, ask = 2, baseSpread = 2, actualSpread = 2, skew = 0,
      imbalance = 0\<rparr>"
    by (simp add: e4_def tick_quotes_def tick_atr_def e1_def f ps1_def calculateATR_Nil
        calculateQuotes_def roundPrice_def Math_round_def TradingEngine_reset_def Let_def)
  have e4: "rng e4 = r1" "shortPosition (tradingEngine e4) = \<lparr>size_p = 0, avgPrice = 0\<rparr>"
    "currentMid e4 = 1"
    by (simp_all add: e4_def tick_quotes_def tick_atr_def e1_def f TradingEngine_reset_def)
  have z: "\<not> fill_divides_by_zero e4"
    by (simp add: fill_divides_by_zero_def Let_def split_beta e4 q r1_def zero_draws)
  have k: "currentMid e5 = 1" "currentQuotes e5 = currentQuotes e4"
    by (simp_all add: e5_def simulateMarketActivity_def Let_def split_beta e4)
  have t: "tick ts now zero_draw_engine = Returns (tick_record ts e5)"
    using p c z by (simp add: tick_def f(1) tick_fill_def e4_def e5_def)
  have l: "last (tl (xs @ [x])) = x \<and> tl (xs @ [x]) \<noteq> []" if "length (xs @ [x]) > 1000"
    for xs :: "data_point list" and x
    using that by (cases xs) auto
  have "dataHistory (tick_record ts e5) \<noteq> []
      \<and> dp_mid (last (dataHistory (tick_record ts e5))) = currentMid e5
      \<and> dp_bid (last (dataHistory (tick_record ts e5))) = bid (currentQuotes e5)
      \<and> dp_ask (last (dataHistory (tick_record ts e5))) = ask (currentQuotes e5)"
    using l by (simp add: tick_record_def Let_def del: length_append)
  then show ?thesis
    by (simp add: t k q)
qed

lemma tick_keeps_divisors:
  assumes "tick ts now e = Returns e' \<or> tick ts now e = Throws e'"
  shows "leverage (tradingEngine e') = leverage (tradingEngine e) \<and> config_e e' = config_e e"
proof -
  have p: "leverage (tradingEngine x') = leverage (tradingEngine x) \<and> config_e x' = config_e x"
    if "tick_price now x = Returns x' \<or> tick_price now x = Throws x'" for x x'
    using that
    by (auto simp: tick_price_def Let_def split: option.splits outcome.splits)
  have c: "leverage (tradingEngine x') = leverage (tradingEngine x) \<and> config_e x' = config_e x"
    if "tick_collapse ts x = Returns x' \<or> tick_collapse ts x = Throws x'" for x x'
    using that
    by (auto simp: tick_collapse_def executeCollapse_def Let_def split_beta
        split: if_splits option.splits callback.splits)
  have m: "leverage (tradingEngine (snd (simulateMarketActivity ts x))) = leverage (tradingEngine x)
      \<and> config_e (snd (simulateMarketActivity ts x)) = config_e x" for x
    by (simp add: simulateMarketActivity_def executeEntry_def Let_def split_beta)
  have a: "leverage (tradingEngine (tick_atr x)) = leverage (tradingEngine x)
      \<and> config_e (tick_atr x) = config_e x" for x
    by (simp add: tick_atr_def)
  have u: "leverage (tradingEngine (tick_quotes x)) = leverage (tradingEngine x)
      \<and> config_e (tick_quotes x) = config_e x" for x
    by (simp add: tick_quotes_def)
  have w: "leverage (tradingEngine (tick_record ts x)) = leverage (tradingEngine x)
      \<and> config_e (tick_record ts x) = config_e x" for x
    by (simp add: tick_record_def Let_def)
  show ?thesis
  proof (cases "isRunning e")
    case False
    with assms show ?thesis by (simp add: tick_def)
  next
    case True
    show ?thesis
    proof (cases "tick_price now e")
      case (Returns e1)
      note k1 = p [OF disjI1 [OF Returns]]
      show ?thesis
      proof (cases "tick_collapse ts (tick_atr e1)")
        case r: (Returns e3)
        note k3 = c [OF disjI1 [OF r]]
        from assms True Returns r
        have "e' = tick_record ts (snd (simulateMarketActivity ts (tick_quotes e3)))"
          by (auto simp: tick_def tick_fill_def split: if_splits)
        then show ?thesis
          using k1 k3 a [of e1] u [of e3] m [of "tick_quotes e3"] w by simp
      next
        case r: (Throws e3)
        note k3 = c [OF disjI2 [OF r]]
        from assms True Returns r have "e' = e3" by (simp add: tick_def)
        then show ?thesis using k1 k3 a [of e1] by simp
      next
        case NotFinite
        with assms True Returns show ?thesis by (simp add: tick_def)
      qed
    next
      case (Throws e1)
      with assms True have "e' = e1" by (simp add: tick_def)
      with p [OF disjI2 [OF Throws]] show ?thesis by simp
    next
      case NotFinite
      with assms True show ?thesis by (simp add: tick_def)
    qed
  qed
qed

text \<open>
  C4, amended. Two runs of the same engine state, hence of the same configuration and
  seed, over clock readings that close the open candle at the same ticks record, up to
  every tick \<open>k\<close>, data points that are equal in every field except the time stamp;
  a tick throws in one run exactly when it does in the other, and if a tick of one run
  divides by a quote or by a position size that is 0, so does the same tick of the
  other. The divisors that no tick changes, the leverage, the maximal position and the
  tick size, are assumed not to be 0. The time stamp of the data point recorded by a
  tick is the clock reading taken at the start of that tick.
\<close>

theorem data_points_equal_up_to_clock:
  assumes "rollovers (candleStart e) (map snd clock) = rollovers (candleStart e) (map snd clock')"
    and "leverage (tradingEngine e) \<noteq> 0" and "maxPosition (config_e e) \<noteq> 0"
    and "tickSize (config_e e) \<noteq> 0"
  shows "(\<forall>k. map_option (\<lambda>e'. map erase_dp (dataHistory e')) (run_ticks (take k clock) e)
             = map_option (\<lambda>e'. map erase_dp (dataHistory e')) (run_ticks (take k clock') e))
    \<and> (\<forall>ts now ts' now'. rollover (candleStart e) now = rollover (candleStart e) now'
          \<longrightarrow> map_outcome erase_engine erase_engine (tick ts now e)
            = map_outcome erase_engine erase_engine (tick ts' now' e))
    \<and> (\<forall>ts now e'. isRunning e \<and> tick ts now e = Returns e'
           \<longrightarrow> dataHistory e' \<noteq> [] \<and> dp_timestamp (last (dataHistory e')) = ts)"
proof (intro conjI allI)
  fix k
  have h: "rollovers (candleStart e) (map snd (take k clock))
      = rollovers (candleStart e) (map snd (take k clock'))"
    using arg_cong [OF assms(1), of "take k"] by (simp only: take_map [symmetric] rollovers_take)
  have "map_option erase_engine (run_ticks (take k clock) e)
      = map_option erase_engine (run_ticks (take k clock') e)"
  proof (cases "isRunning e")
    case True
    show ?thesis
    proof (cases "priceSimulator e")
      case None
      from arg_cong [OF h, of length] have "length (take k clock) = length (take k clock')"
        by (simp only: length_rollovers length_map)
      then show ?thesis by (simp only: run_ticks_no_simulator [OF True None])
    next
      case (Some ps)
      then have "priceSimulator e \<noteq> None" by simp
      then show ?thesis by (rule run_ticks_cong [OF refl h True])
    qed
  next
    case False
    then show ?thesis by (simp add: run_ticks_not_running)
  qed
  then have "map_option dataHistory (map_option erase_engine (run_ticks (take k clock) e))
      = map_option dataHistory (map_option erase_engine (run_ticks (take k clock') e))"
    by (rule arg_cong)
  then show "map_option (\<lambda>e'. map erase_dp (dataHistory e')) (run_ticks (take k clock) e)
       = map_option (\<lambda>e'. map erase_dp (dataHistory e')) (run_ticks (take k clock') e)"
    by (simp add: option.map_comp comp_def)
next
  fix ts now ts' now'
  show "rollover (candleStart e) now = rollover (candleStart e) now'
          \<longrightarrow> map_outcome erase_engine erase_engine (tick ts now e)
            = map_outcome erase_engine erase_engine (tick ts' now' e)"
    using tick_cong [OF refl] by blast
next
  fix ts now e'
  show "isRunning e \<and> tick ts now e = Returns e'
           \<longrightarrow> dataHistory e' \<noteq> [] \<and> dp_timestamp (last (dataHistory e')) = ts"
    using tick_timestamp by blast
qed

theorem data_points_equal_up_to_clock_witness:
  "rollovers (candleStart engine42) (map snd [(1000, 1000), (2000, 2000), (3000, 3000)])
     = rollovers (candleStart engine42) (map snd [(5000, 5000), (6000, 6001), (7000, 7003)])
   \<and> leverage (tradingEngine engine42) \<noteq> 0 \<and> maxPosition (config_e engine42) \<noteq> 0
   \<and> tickSize (config_e engine42) \<noteq> 0
   \<and> run_ticks [(1000, 1000), (2000, 2000), (3000, 3000)] engine42 \<noteq> None
   \<and> map_option (\<lambda>e'. map erase_dp (dataHistory e'))
         (run_ticks [(1000, 1000), (2000, 2000), (3000, 3000)] engine42)
     = map_option (\<lambda>e'. map erase_dp (dataHistory e'))
         (run_ticks [(5000, 5000), (6000, 6001), (7000, 7003)] engine42)
   \<and> rollover (candleStart zero_draw_engine) 1000 = rollover (candleStart zero_draw_engine) 2000
   \<and> (\<exists>e'. tick 1000 1000 zero_draw_engine = Returns e'
         \<and> map_outcome erase_engine erase_engine (tick 2000 2000 zero_draw_engine)
             = Returns (erase_engine e')
         \<and> dp_mid (last (dataHistory e')) = 1)
   \<and> isRunning example_engine
   \<and> (\<exists>e'. tick 1000 1000 example_engine = Returns e'
         \<and> dp_timestamp (last (dataHistory e')) = 1000)"
proof -
  have h: "rollovers (candleStart engine42) (map snd [(1000, 1000), (2000, 2000), (3000, 3000)])
     = rollovers (candleStart engine42) (map snd [(5000, 5000), (6000, 6001), (7000, 7003)])"
    by (simp add: rollover_def candleStart_def engine42_fields PriceSimulator_new_def
        TRADING_CONFIG_candleDurationMs_def)
  have s: "leverage (tradingEngine engine42) \<noteq> 0" "maxPosition (config_e engine42) \<noteq> 0"
    "tickSize (config_e engine42) \<noteq> 0"
    by (simp_all add: engine42_def setSeed_def example_engine_def setAsset_def
        SimulationEngine_new_def TradingEngine_reset_def TRADING_CONFIG_leverage_def)
  have s0: "leverage (tradingEngine zero_draw_engine) \<noteq> 0"
    "maxPosition (config_e zero_draw_engine) \<noteq> 0" "tickSize (config_e zero_draw_engine) \<noteq> 0"
    by (simp_all add: zero_draw_engine_fields TradingEngine_reset_def TRADING_CONFIG_leverage_def)
  have s1: "leverage (tradingEngine example_engine) \<noteq> 0"
    "maxPosition (config_e example_engine) \<noteq> 0" "tickSize (config_e example_engine) \<noteq> 0"
    by (simp_all add: example_engine_def setAsset_def
        SimulationEngine_new_def TradingEngine_reset_def TRADING_CONFIG_leverage_def)
  have r: "isRunning example_engine" by (simp add: example_engine_def)
  have v: "rollover (candleStart zero_draw_engine) 1000 = rollover (candleStart zero_draw_engine) 2000"
    by (simp add: rollover_def candleStart_def zero_draw_engine_fields PriceSimulator_new_def)
  have n: "rollovers (candleStart x) (map snd []) = rollovers (candleStart x) (map snd [])" for x
    by simp
  obtain a where a: "tick 1000 1000 example_engine = Returns a"
    using example_engine_tick [of 1000 1000] by blast
  from data_points_equal_up_to_clock [OF n s1, THEN conjunct2, THEN conjunct2] r a
  have a': "dp_timestamp (last (dataHistory a)) = 1000" by blast
  obtain b where b: "tick 1000 1000 zero_draw_engine = Returns b"
    "dp_mid (last (dataHistory b)) = 1"
    using zero_draw_engine_tick [of 1000 1000] by blast
  from data_points_equal_up_to_clock [OF n s0, THEN conjunct2, THEN conjunct1] v
  have "map_outcome erase_engine erase_engine (tick 2000 2000 zero_draw_engine)
      = map_outcome erase_engine erase_engine (tick 1000 1000 zero_draw_engine)"
    by (simp only:)
  then have b': "map_outcome erase_engine erase_engine (tick 2000 2000 zero_draw_engine)
      = Returns (erase_engine b)"
    by (simp only: b outcome.map)
  from data_points_equal_up_to_clock [OF h s, THEN conjunct1, THEN spec, of 3]
  have q: "map_option (\<lambda>e'. map erase_dp (dataHistory e'))
         (run_ticks [(1000, 1000), (2000, 2000), (3000, 3000)] engine42)
     = map_option (\<lambda>e'. map erase_dp (dataHistory e'))
         (run_ticks [(5000, 5000), (6000, 6001), (7000, 7003)] engine42)"
    by (simp only: take_all length_Cons list.size(3))
  from a a' b b' q h s r v atr_differs_across_runs [THEN conjunct2, THEN conjunct1]
  show ?thesis by blast
qed

end
